theory Spec2Isabelle
  imports Complex_Main "HOL-Library.AList" "HOL-Library.Char_ord" "HOL-Library.List_Lexorder"
begin

section \<open>The West Virginia aggregation builder\<close>

text \<open>
  A shallow embedding of \<^verbatim>\<open>Scripts/build_wv_aggregation_json.py\<close>.

  Conventions of the embedding.
  \<^item> A Python \<^verbatim>\<open>str\<close> is a \<open>string\<close>: a list of characters with code points below
    256. The character classes below (\<open>is_space\<close>, \<open>is_upper\<close>, ...) are Python's on
    these code points. The capitals of the two letters \<^verbatim>\<open>U+00B5\<close> and \<^verbatim>\<open>U+00FF\<close> have
    code points above 255: \<open>to_upper\<close> leaves these two letters as they are.
  \<^item> A Python \<^verbatim>\<open>int\<close> is an \<open>int\<close>.
  \<^item> A finite Python \<^verbatim>\<open>float\<close> is the rational number that the double denotes (the
    two zeros are one number). Every operation that yields a float rounds its exact
    result to the nearest double, with \<open>round_double\<close>; a literal threshold of the
    classifier is compared as the number it is written as, which decides the comparison
    of a double against the double of that literal in the same way.
  \<^item> A \<^verbatim>\<open>dict\<close> is an association list in insertion order; a key is looked up
    with \<open>map_of\<close> and stored with \<open>AList.update\<close>, which keeps the position of a key that
    is already there and appends a new one, as Python does.
  \<^item> An exception is a value \<open>Inl e\<close> of a sum type.
\<close>

subsection \<open>The competitiveness classifier\<close>

record competitiveness =
  category :: string
  party :: string
  code :: string
  color :: string

definition compute_competitiveness :: "rat \<Rightarrow> competitiveness" where
  "compute_competitiveness margin_pct =
     (let abs_margin = \<bar>margin_pct\<bar>;
          winner_party = (if margin_pct > 0 then ''Democratic''
                          else if margin_pct < 0 then ''Republican'' else ''Tie'');
          code_prefix = (if margin_pct > 0 then ''D''
                         else if margin_pct < 0 then ''R'' else ''T'');
          (cat, cd, col) =
            (if abs_margin \<ge> 40 then
               (if winner_party \<noteq> ''Tie'' then ''Annihilation '' @ winner_party else ''Tossup'',
                if code_prefix \<noteq> ''T'' then code_prefix @ ''_ANNIHILATION'' else ''T_TOSSUP'',
                if margin_pct > 0 then ''#08306b''
                else if margin_pct < 0 then ''#67000d'' else ''#f7f7f7'')
             else if abs_margin \<ge> 30 then
               (if winner_party \<noteq> ''Tie'' then ''Dominant '' @ winner_party else ''Tossup'',
                if code_prefix \<noteq> ''T'' then code_prefix @ ''_DOMINANT'' else ''T_TOSSUP'',
                if margin_pct > 0 then ''#08519c''
                else if margin_pct < 0 then ''#a50f15'' else ''#f7f7f7'')
             else if abs_margin \<ge> 20 then
               (if winner_party \<noteq> ''Tie'' then ''Stronghold '' @ winner_party else ''Tossup'',
                if code_prefix \<noteq> ''T'' then code_prefix @ ''_STRONGHOLD'' else ''T_TOSSUP'',
                if margin_pct > 0 then ''#3182bd''
                else if margin_pct < 0 then ''#cb181d'' else ''#f7f7f7'')
             else if abs_margin \<ge> 10 then
               (if winner_party \<noteq> ''Tie'' then ''Safe '' @ winner_party else ''Tossup'',
                if code_prefix \<noteq> ''T'' then code_prefix @ ''_SAFE'' else ''T_TOSSUP'',
                if margin_pct > 0 then ''#6baed6''
                else if margin_pct < 0 then ''#ef3b2c'' else ''#f7f7f7'')
             else if abs_margin > 5.5 then
               (if winner_party \<noteq> ''Tie'' then ''Likely '' @ winner_party else ''Tossup'',
                if code_prefix \<noteq> ''T'' then code_prefix @ ''_LIKELY'' else ''T_TOSSUP'',
                if margin_pct > 0 then ''#9ecae1''
                else if margin_pct < 0 then ''#fb6a4a'' else ''#f7f7f7'')
             else if abs_margin > 0.99 then
               (if winner_party \<noteq> ''Tie'' then ''Lean '' @ winner_party else ''Tossup'',
                if code_prefix \<noteq> ''T'' then code_prefix @ ''_LEAN'' else ''T_TOSSUP'',
                if margin_pct > 0 then ''#c6dbef''
                else if margin_pct < 0 then ''#fcae91'' else ''#f7f7f7'')
             else if abs_margin \<ge> 0.5 then
               (if winner_party \<noteq> ''Tie'' then ''Tilt '' @ winner_party else ''Tossup'',
                if code_prefix \<noteq> ''T'' then code_prefix @ ''_TILT'' else ''T_TOSSUP'',
                if margin_pct > 0 then ''#e1f5fe''
                else if margin_pct < 0 then ''#fee8c8'' else ''#f7f7f7'')
             else (''Tossup'', ''T_TOSSUP'', ''#f7f7f7''))
      in \<lparr>category = cat,
          party = (if winner_party \<noteq> ''Tie'' then winner_party else ''Tossup''),
          code = cd,
          color = col\<rparr>)"

text \<open>
  The tier of a classification, read off its stable short code: the part after the
  party prefix. It is used to state which tier a margin falls into on either side.
\<close>

definition tier_of :: "competitiveness \<Rightarrow> string" where
  "tier_of c = drop 2 (code c)"


subsection \<open>Characters and Python's string methods\<close>

text \<open>The characters for which \<^verbatim>\<open>str.isspace()\<close> holds; \<^verbatim>\<open>str.strip()\<close> removes them
  and the class \<^verbatim>\<open>\s\<close> matches them.\<close>

definition whitespace :: string where
  "whitespace = [CHR 0x09, CHR 0x0A, CHR 0x0B, CHR 0x0C, CHR 0x0D,
                 CHR 0x1C, CHR 0x1D, CHR 0x1E, CHR 0x1F, CHR '' '', CHR 0x85, CHR 0xA0]"

definition ascii_uppercase :: string where
  "ascii_uppercase = ''ABCDEFGHIJKLMNOPQRSTUVWXYZ''"

definition ascii_lowercase :: string where
  "ascii_lowercase = ''abcdefghijklmnopqrstuvwxyz''"

definition digits :: string where
  "digits = ''0123456789''"

text \<open>The capital letters above code point 127, and the small letters that they are the
  capitals of, in the same order.\<close>

definition latin_uppercase :: string where
  "latin_uppercase =
    [CHR 0xC0, CHR 0xC1, CHR 0xC2, CHR 0xC3, CHR 0xC4, CHR 0xC5, CHR 0xC6, CHR 0xC7,
     CHR 0xC8, CHR 0xC9, CHR 0xCA, CHR 0xCB, CHR 0xCC, CHR 0xCD, CHR 0xCE, CHR 0xCF,
     CHR 0xD0, CHR 0xD1, CHR 0xD2, CHR 0xD3, CHR 0xD4, CHR 0xD5, CHR 0xD6, CHR 0xD8,
     CHR 0xD9, CHR 0xDA, CHR 0xDB, CHR 0xDC, CHR 0xDD, CHR 0xDE]"

definition latin_lowercase :: string where
  "latin_lowercase =
    [CHR 0xE0, CHR 0xE1, CHR 0xE2, CHR 0xE3, CHR 0xE4, CHR 0xE5, CHR 0xE6, CHR 0xE7,
     CHR 0xE8, CHR 0xE9, CHR 0xEA, CHR 0xEB, CHR 0xEC, CHR 0xED, CHR 0xEE, CHR 0xEF,
     CHR 0xF0, CHR 0xF1, CHR 0xF2, CHR 0xF3, CHR 0xF4, CHR 0xF5, CHR 0xF6, CHR 0xF8,
     CHR 0xF9, CHR 0xFA, CHR 0xFB, CHR 0xFC, CHR 0xFD, CHR 0xFE]"

text \<open>The small letters without a capital of one character below code point 256: the
  ordinal indicators, the micro sign, the sharp s and the y with diaeresis.\<close>

definition unpaired_lowercase :: string where
  "unpaired_lowercase = [CHR 0xAA, CHR 0xB5, CHR 0xBA, CHR 0xDF, CHR 0xFF]"

text \<open>The characters that are numeric without being decimal digits: the superscripts
  and the fractions.\<close>

definition numerics :: string where
  "numerics = [CHR 0xB2, CHR 0xB3, CHR 0xB9, CHR 0xBC, CHR 0xBD, CHR 0xBE]"

definition is_space :: "char \<Rightarrow> bool" where
  "is_space c = (c \<in> set whitespace)"

definition is_upper :: "char \<Rightarrow> bool" where
  "is_upper c = (c \<in> set (ascii_uppercase @ latin_uppercase))"

definition is_lower :: "char \<Rightarrow> bool" where
  "is_lower c = (c \<in> set (ascii_lowercase @ latin_lowercase @ unpaired_lowercase))"

text \<open>Every letter below code point 256 is cased.\<close>

definition is_alpha :: "char \<Rightarrow> bool" where
  "is_alpha c = (is_upper c \<or> is_lower c)"

text \<open>The decimal digits, which the class \<^verbatim>\<open>\d\<close> matches.\<close>

definition is_digit :: "char \<Rightarrow> bool" where
  "is_digit c = (c \<in> set digits)"

text \<open>The class \<^verbatim>\<open>[a-z]\<close>.\<close>

definition in_a_z :: "char \<Rightarrow> bool" where
  "in_a_z c = (c \<in> set ascii_lowercase)"

text \<open>The characters that the regular expression class \<^verbatim>\<open>\w\<close> matches, which
  decide where \<^verbatim>\<open>\b\<close> holds: the alphanumeric characters and the underscore.\<close>

definition is_word :: "char \<Rightarrow> bool" where
  "is_word c = (is_alpha c \<or> is_digit c \<or> c \<in> set numerics \<or> c = CHR ''_'')"

definition to_lower :: "char \<Rightarrow> char" where
  "to_lower c =
     (case map_of (zip (ascii_uppercase @ latin_uppercase) (ascii_lowercase @ latin_lowercase)) c of
        Some d \<Rightarrow> d | None \<Rightarrow> c)"

definition to_upper :: "char \<Rightarrow> char" where
  "to_upper c =
     (case map_of (zip (ascii_lowercase @ latin_lowercase) (ascii_uppercase @ latin_uppercase)) c of
        Some d \<Rightarrow> d | None \<Rightarrow> c)"

definition lower :: "string \<Rightarrow> string" where
  "lower s = map to_lower s"

text \<open>\<^verbatim>\<open>str.upper()\<close>: the capital of the sharp s is two letters.\<close>

definition upper :: "string \<Rightarrow> string" where
  "upper s = concat (map (\<lambda>c. if c = CHR 0xDF then ''SS'' else [to_upper c]) s)"

text \<open>\<^verbatim>\<open>str.strip()\<close>: whitespace is removed at both ends.\<close>

definition strip :: "string \<Rightarrow> string" where
  "strip s = rev (dropWhile is_space (rev (dropWhile is_space s)))"

text \<open>\<^verbatim>\<open>str.title()\<close>: a cased character is put in title case when the character
  before it is not cased and in lower case when it is. The flag says whether the
  previous character was cased. The title case of the sharp s is two letters.\<close>

fun title_from :: "bool \<Rightarrow> string \<Rightarrow> string" where
  "title_from prev [] = []"
| "title_from prev (c # cs) =
     (if prev then [to_lower c] else if c = CHR 0xDF then ''Ss'' else [to_upper c])
     @ title_from (is_alpha c) cs"

definition str_title :: "string \<Rightarrow> string" where
  "str_title s = title_from False s"

text \<open>\<^verbatim>\<open>str.isupper()\<close>: there is a cased character and no cased character is in
  lower case.\<close>

definition isupper :: "string \<Rightarrow> bool" where
  "isupper s = (list_ex is_alpha s \<and> \<not> list_ex is_lower s)"

text \<open>\<^verbatim>\<open>str.replace(old, new)\<close> for a one-character \<open>old\<close>, and for the two
  spaces that \<^verbatim>\<open>normalize_office\<close> replaces by one (left to right, without
  overlap).\<close>

definition replace_char :: "char \<Rightarrow> string \<Rightarrow> string \<Rightarrow> string" where
  "replace_char old new s = concat (map (\<lambda>c. if c = old then new else [c]) s)"

fun replace_two_spaces :: "string \<Rightarrow> string" where
  "replace_two_spaces (a # b # cs) =
     (if a = CHR '' '' \<and> b = CHR '' '' then CHR '' '' # replace_two_spaces cs
      else a # replace_two_spaces (b # cs))"
| "replace_two_spaces cs = cs"

subsection \<open>Regular-expression substitutions\<close>

text \<open>\<^verbatim>\<open>re.sub(r"\s+", " ", s)\<close>: every maximal run of whitespace becomes one
  space. The flag says whether the previous character was whitespace, that is, whether
  the run it belongs to has been replaced already.\<close>

fun sub_spaces_from :: "bool \<Rightarrow> string \<Rightarrow> string" where
  "sub_spaces_from prev [] = []"
| "sub_spaces_from prev (c # cs) =
     (if is_space c then (if prev then [] else '' '') @ sub_spaces_from True cs
      else c # sub_spaces_from False cs)"

definition sub_spaces :: "string \<Rightarrow> string" where
  "sub_spaces s = sub_spaces_from False s"

text \<open>
  \<^verbatim>\<open>re.sub(pattern, repl, s)\<close> for a pattern that cannot match the empty string.
  The matcher \<open>m pw s\<close> says whether the pattern matches at the start of \<open>s\<close>, where
  \<open>pw\<close> tells whether the character before \<open>s\<close> is a word character, and gives the
  length of the match and the text that replaces it. The scan goes left to right;
  \<open>k\<close> counts the characters of the last match that are still to be skipped, so that
  matches do not overlap. Matching looks at the subject string, never at the text
  already substituted.
\<close>

type_synonym matcher = "bool \<Rightarrow> string \<Rightarrow> (nat \<times> string) option"

fun re_sub :: "matcher \<Rightarrow> nat \<Rightarrow> bool \<Rightarrow> string \<Rightarrow> string" where
  "re_sub m k pw [] = []"
| "re_sub m (Suc k) pw (c # cs) = re_sub m k (is_word c) cs"
| "re_sub m 0 pw (c # cs) =
     (case m pw (c # cs) of
        None \<Rightarrow> c # re_sub m 0 (is_word c) cs
      | Some (n, rep) \<Rightarrow> rep @ re_sub m (n - 1) (is_word c) cs)"

text \<open>\<^verbatim>\<open>\b\<close> between a character whose word-ness is \<open>pw\<close> (\<open>False\<close> at the start of
  the string) and the rest \<open>s\<close> of the string.\<close>

definition word_boundary :: "bool \<Rightarrow> string \<Rightarrow> bool" where
  "word_boundary pw s = (pw \<noteq> (s \<noteq> [] \<and> is_word (hd s)))"

text \<open>\<^verbatim>\<open>\bMc([a-z])\<close>, replaced by \<^verbatim>\<open>"Mc" + m.group(1).upper()\<close>.\<close>

definition match_mc :: matcher where
  "match_mc pw s =
     (if word_boundary pw s \<and> take 2 s = ''Mc'' \<and> 2 < length s \<and> in_a_z (s ! 2)
      then Some (3, ''Mc'' @ upper [s ! 2]) else None)"

text \<open>\<^verbatim>\<open>\b(O')([a-z])\<close>, replaced by \<^verbatim>\<open>m.group(1) + m.group(2).upper()\<close>.\<close>

definition match_o_apostrophe :: matcher where
  "match_o_apostrophe pw s =
     (if word_boundary pw s \<and> take 2 s = ''O'' @ [CHR 0x27] \<and> 2 < length s \<and> in_a_z (s ! 2)
      then Some (3, take 2 s @ upper [s ! 2]) else None)"

text \<open>\<^verbatim>\<open>\b(Ii|Iii|Iv|V|Vi|Vii|Viii|Ix|X)\b\<close>, replaced by \<^verbatim>\<open>m.group(0).upper()\<close>:
  the alternatives are tried in their order, each followed by \<^verbatim>\<open>\b\<close>.\<close>

definition roman_alternatives :: "string list" where
  "roman_alternatives =
     [''Ii'', ''Iii'', ''Iv'', ''V'', ''Vi'', ''Vii'', ''Viii'', ''Ix'', ''X'']"

definition match_roman :: matcher where
  "match_roman pw s =
     (if word_boundary pw s
      then (case find (\<lambda>a. take (length a) s = a \<and> word_boundary True (drop (length a) s))
                      roman_alternatives of
              Some a \<Rightarrow> Some (length a, upper a)
            | None \<Rightarrow> None)
      else None)"

text \<open>\<^verbatim>\<open>\bJr\.?\b\<close> and \<^verbatim>\<open>\bSr\.?\b\<close> with \<^verbatim>\<open>re.IGNORECASE\<close>, replaced by
  \<^verbatim>\<open>"Jr."\<close> and \<^verbatim>\<open>"Sr."\<close>: \<open>ab\<close> is the abbreviation in lower case. The optional
  period is greedy: the match with the period is tried first, and it needs \<^verbatim>\<open>\b\<close>
  after the period; then the match without it, with \<^verbatim>\<open>\b\<close> after the letters.\<close>

definition match_suffix :: "string \<Rightarrow> string \<Rightarrow> matcher" where
  "match_suffix ab rep pw s =
     (if word_boundary pw s \<and> lower (take 2 s) = ab
      then (if take 1 (drop 2 s) = ''.'' \<and> word_boundary False (drop 3 s) then Some (3, rep)
            else if word_boundary True (drop 2 s) then Some (2, rep)
            else None)
      else None)"

subsection \<open>The fixed tables\<close>

definition OFFICE_MAP :: "(string \<times> string \<times> string) list" where
  "OFFICE_MAP =
     [(''PRESIDENT'', (''president'', ''President of the United States'')),
      (''U.S. PRESIDENT'', (''president'', ''President of the United States'')),
      (''US PRESIDENT'', (''president'', ''President of the United States'')),
      (''PRESIDENT OF THE UNITED STATES'', (''president'', ''President of the United States'')),
      (''U.S. SENATE'', (''us_senate'', ''United States Senator'')),
      (''US SENATE'', (''us_senate'', ''United States Senator'')),
      (''SENATE'', (''us_senate'', ''United States Senator'')),
      (''GOVERNOR'', (''governor'', ''Governor'')),
      (''SECRETARY OF STATE'', (''secretary_of_state'', ''Secretary of State'')),
      (''ATTORNEY GENERAL'', (''attorney_general'', ''Attorney General'')),
      (''AUDITOR'', (''auditor'', ''Auditor'')),
      (''STATE AUDITOR'', (''auditor'', ''Auditor'')),
      (''AUDITOR OF STATE'', (''auditor'', ''Auditor'')),
      (''TREASURER'', (''state_treasurer'', ''State Treasurer'')),
      (''STATE TREASURER'', (''state_treasurer'', ''State Treasurer'')),
      (''COMMISSIONER OF AGRICULTURE'',
         (''commissioner_of_agriculture'', ''Commissioner of Agriculture'')),
      (''COMMISIONER OF AGRICULTURE'',
         (''commissioner_of_agriculture'', ''Commissioner of Agriculture''))]"

definition PARTY_MAP :: "(string \<times> string) list" where
  "PARTY_MAP =
     [(''D'', ''DEM''), (''DEM'', ''DEM''), (''DEMOCRAT'', ''DEM''), (''DEMOCRATIC'', ''DEM''),
      (''R'', ''REP''), (''REP'', ''REP''), (''REPUBLICAN'', ''REP''),
      (''LBN'', ''LIB''), (''LIB'', ''LIB''), (''LIBERTARIAN'', ''LIB''),
      (''MTN'', ''MTN''), (''MOUNTAIN'', ''MTN''),
      (''CST'', ''CST''), (''CONSTITUTION'', ''CST''),
      (''IND'', ''IND''), (''INDEPENDENT'', ''IND''),
      (''NON'', ''NPA''), (''NPA'', ''NPA''), (''NO AFFILIATION'', ''NPA'')]"

definition COUNTY_ALIASES :: "(string \<times> string) list" where
  "COUNTY_ALIASES =
     [(''glimer'', ''gilmer''), (''pocohontas'', ''pocahontas''),
      (''pocohantas'', ''pocahontas'')]"

text \<open>\<^verbatim>\<open>d.get(k, default)\<close>.\<close>

definition dict_get :: "('k \<times> 'v) list \<Rightarrow> 'k \<Rightarrow> 'v \<Rightarrow> 'v" where
  "dict_get d k dflt = (case map_of d k of Some v \<Rightarrow> v | None \<Rightarrow> dflt)"

text \<open>\<^verbatim>\<open>d.setdefault(k, v)\<close>, for its effect on \<open>d\<close>.\<close>

definition setdefault :: "'k \<Rightarrow> 'v \<Rightarrow> ('k \<times> 'v) list \<Rightarrow> ('k \<times> 'v) list" where
  "setdefault k v d = (case map_of d k of Some _ \<Rightarrow> d | None \<Rightarrow> AList.update k v d)"

subsection \<open>The text normalizer\<close>

definition county_norm_token :: "string \<Rightarrow> string" where
  "county_norm_token v = filter in_a_z (lower (strip v))"

definition normalize_text :: "string \<Rightarrow> string" where
  "normalize_text v = upper (sub_spaces (strip v))"

definition normalize_office :: "string \<Rightarrow> string" where
  "normalize_office v = replace_two_spaces (normalize_text v)"

definition normalize_party :: "string \<Rightarrow> string" where
  "normalize_party v = (let p = normalize_text v in if p = [] then [] else dict_get PARTY_MAP p p)"

text \<open>\<^verbatim>\<open>re.sub(r"\s+COUNTY$", "", c, flags=re.IGNORECASE)\<close>. The subject \<open>c\<close> is
  stripped, so that \<^verbatim>\<open>$\<close> can only match at its very end; the leftmost match starts
  at the beginning of the whitespace that precedes the word.\<close>

definition sub_county_suffix :: "string \<Rightarrow> string" where
  "sub_county_suffix c =
     (let r = rev c in
      if lower (take 6 r) = rev ''county'' \<and> 6 < length r \<and> is_space (r ! 6)
      then rev (dropWhile is_space (drop 6 r)) else c)"

definition normalize_county_name :: "string \<Rightarrow> string" where
  "normalize_county_name v = sub_county_suffix (sub_spaces (strip v))"

definition display_county_name :: "string \<Rightarrow> string" where
  "display_county_name v =
     (let c = normalize_county_name v in
      if c = [] then c
      else if isupper c then re_sub match_mc 0 False (str_title c)
      else c)"

definition county_key :: "string \<Rightarrow> string" where
  "county_key v = normalize_text (normalize_county_name v)"

text \<open>\<^verbatim>\<open>load_county_lookup\<close>. The boundary file is represented by what the function
  reads from it: \<open>None\<close> when the path does not exist, and otherwise the name found in
  the properties of each feature, in the order of the features (\<open>[]\<close> for a feature
  without a name).\<close>

definition load_county_lookup :: "string list option \<Rightarrow> (string \<times> string) list" where
  "load_county_lookup geo =
     (case geo of
        None \<Rightarrow> []
      | Some names \<Rightarrow>
          fold (\<lambda>nm lookup. let n = display_county_name nm in
                  if n = [] then lookup else AList.update (county_norm_token n) n lookup)
               names [])"

definition canonicalize_county_name :: "string \<Rightarrow> (string \<times> string) list \<Rightarrow> string" where
  "canonicalize_county_name raw county_lookup =
     (let c = normalize_county_name raw in
      if c = [] then []
      else if county_lookup = [] then display_county_name c
      else let token = county_norm_token c;
               token = dict_get COUNTY_ALIASES token token
           in dict_get county_lookup token [])"

definition normalize_candidate_name :: "string \<Rightarrow> string" where
  "normalize_candidate_name raw =
     (let s = sub_spaces (strip raw) in
      if s = [] then []
      else let t = str_title (lower s);
               t = re_sub match_mc 0 False t;
               t = re_sub match_o_apostrophe 0 False t;
               t = re_sub match_roman 0 False t;
               t = re_sub (match_suffix ''jr'' ''Jr.'') 0 False t;
               t = re_sub (match_suffix ''sr'' ''Sr.'') 0 False t
           in t)"

subsection \<open>What is read from a file name\<close>

datatype error = ValueError | OverflowError | ZeroDivisionError | KeyError | FileNotFoundError

text \<open>An input path is represented by what \<^verbatim>\<open>main\<close> uses of it: the name of the file,
  the name of its parent directory, whether the file exists, and the rows that
  \<^verbatim>\<open>csv.DictReader\<close> yields. A row is the dictionary of its fields; a missing field
  (\<^verbatim>\<open>None\<close>) is the empty string, which every reader of a field makes of it.\<close>

type_synonym row = "(string \<times> string) list"

record input_file =
  path_name :: string
  path_parent :: string
  path_exists :: bool
  csv_rows :: "row list"

text \<open>The group \<^verbatim>\<open>([a-z]+(?:_[a-z]+)*)\<close>: runs of lower-case letters joined by
  single underscores. \<open>acc\<close> is the part of the group read so far; the result is the
  group and the rest of the string.\<close>

fun county_group :: "string \<Rightarrow> string \<Rightarrow> (string \<times> string) option" where
  "county_group acc [] = (if acc = [] then None else Some (acc, []))"
| "county_group acc (c # cs) =
     (if in_a_z c then county_group (acc @ [c]) cs
      else if acc \<noteq> [] \<and> c = CHR ''_'' \<and> cs \<noteq> [] \<and> in_a_z (hd cs)
           then county_group (acc @ [c]) cs
      else if acc = [] then None else Some (acc, c # cs))"

text \<open>What may follow \<^verbatim>\<open>__precinct\<close>: \<^verbatim>\<open>(?:\.+csv)?$\<close>, where \<^verbatim>\<open>$\<close> matches at the end
  of the string and before a newline that ends it.\<close>

definition precinct_tail :: "string \<Rightarrow> bool" where
  "precinct_tail s =
     (let at_end = (\<lambda>t. t = [] \<or> t = [CHR 0x0A]);
          d = dropWhile (\<lambda>c. c = CHR ''.'') s
      in at_end s \<or> (take 1 s = ''.'' \<and> take 3 d = ''csv'' \<and> at_end (drop 3 d)))"

text \<open>The pattern \<^verbatim>\<open>__([a-z]+(?:_[a-z]+)*)__precinct(?:\.+csv)?$\<close> at the start of
  \<open>s\<close>, and \<^verbatim>\<open>re.search\<close> for it: the leftmost position where it matches.\<close>

definition match_precinct :: "string \<Rightarrow> string option" where
  "match_precinct s =
     (if take 2 s = ''__''
      then (case county_group [] (drop 2 s) of
              None \<Rightarrow> None
            | Some (g, r) \<Rightarrow>
                if take 10 r = ''__precinct'' \<and> precinct_tail (drop 10 r) then Some g else None)
      else None)"

fun search_precinct :: "string \<Rightarrow> string option" where
  "search_precinct [] = None"
| "search_precinct (c # cs) =
     (case match_precinct (c # cs) of Some g \<Rightarrow> Some g | None \<Rightarrow> search_precinct cs)"

definition infer_county_from_filename :: "input_file \<Rightarrow> string" where
  "infer_county_from_filename path =
     (case search_precinct (lower (path_name path)) of
        None \<Rightarrow> []
      | Some g \<Rightarrow> display_county_name (replace_char (CHR ''_'') '' '' g))"

text \<open>\<^verbatim>\<open>^(\d{4})\<close> on the name of the file, then \<^verbatim>\<open>^\d{4}$\<close> on the name of its
  parent directory (where \<^verbatim>\<open>$\<close> also matches before a final newline).\<close>

definition infer_year_from_filename :: "input_file \<Rightarrow> error + string" where
  "infer_year_from_filename path =
     (if length (path_name path) \<ge> 4 \<and> list_all is_digit (take 4 (path_name path))
      then Inr (take 4 (path_name path))
      else let parent_year = path_parent path in
        if length parent_year \<ge> 4 \<and> list_all is_digit (take 4 parent_year)
           \<and> (drop 4 parent_year = [] \<or> drop 4 parent_year = [CHR 0x0A])
        then Inr parent_year
        else Inl ValueError)"

subsection \<open>Floating-point numbers\<close>

text \<open>\<^verbatim>\<open>round(x)\<close>: the nearest integer, the even one of two that are equally near.\<close>

definition py_round :: "rat \<Rightarrow> int" where
  "py_round x =
     (let f = \<lfloor>x\<rfloor>; d = x - of_int f in
      if d < 1 / 2 then f
      else if d > 1 / 2 then f + 1
      else if even f then f else f + 1)"

text \<open>A float is a finite double, an infinity with its sign (\<open>True\<close> for the negative
  one), or not a number.\<close>

datatype pyfloat = Finite rat | Infinity bool | NaN

text \<open>The number of binary digits of a positive integer, and the powers of two.\<close>

function bits :: "int \<Rightarrow> nat" where
  "bits n = (if n \<le> 0 then 0 else Suc (bits (n div 2)))"
  by pat_completeness auto

termination
  by (relation "measure nat") auto

declare bits.simps [simp del]

definition pow2 :: "int \<Rightarrow> rat" where
  "pow2 k = (if k \<ge> 0 then 2 ^ nat k else 1 / 2 ^ nat (- k))"

text \<open>The binary exponent of a positive number \<open>a\<close>: the \<open>e\<close> with
  \<open>2 ^ e \<le> a < 2 ^ (e + 1)\<close>. It is the difference of the numbers of digits of the
  numerator and of the denominator, or one less.\<close>

definition exponent :: "rat \<Rightarrow> int" where
  "exponent a =
     (let (p, q) = quotient_of a;
          k = int (bits p) - int (bits q)
      in if pow2 k \<le> a then k else k - 1)"

text \<open>
  The double nearest to a number (IEEE 754 binary64, rounding to nearest with ties to
  even): the number is rounded to a multiple of the unit in the last place of its
  binade, which is \<open>2 ^ (e - 52)\<close> for the exponent \<open>e\<close> and \<open>2 ^ - 1074\<close> below
  \<open>2 ^ - 1022\<close>; a result that reaches \<open>2 ^ 1024\<close> is infinite.
\<close>

definition round_double :: "rat \<Rightarrow> pyfloat" where
  "round_double x =
     (if x = 0 then Finite 0
      else let a = \<bar>x\<bar>; e = max (exponent a) (- 1022) in
        if e > 1023 then Infinity (x < 0)
        else let m = py_round (a / pow2 (e - 52)) in
          if e = 1023 \<and> m = 2 ^ 53 then Infinity (x < 0)
          else Finite ((if x < 0 then - 1 else 1) * of_int m * pow2 (e - 52)))"

text \<open>The quotient \<^verbatim>\<open>a / b\<close> of two integers: the double nearest to the quotient, and
  an error when there is none.\<close>

definition int_truediv :: "int \<Rightarrow> int \<Rightarrow> error + rat" where
  "int_truediv a b =
     (if b = 0 then Inl ZeroDivisionError
      else case round_double (of_int a / of_int b) of
             Finite q \<Rightarrow> Inr q
           | _ \<Rightarrow> Inl OverflowError)"

text \<open>The product \<^verbatim>\<open>x * y\<close> of two finite floats: a product too large for a double
  is infinite, and no error.\<close>

definition float_mul :: "rat \<Rightarrow> rat \<Rightarrow> pyfloat" where
  "float_mul x y = round_double (x * y)"

text \<open>\<^verbatim>\<open>round(x, 2)\<close>: the double nearest to the multiple of a hundredth that is
  nearest to the double \<open>x\<close>, the even one of two that are equally near; what is not
  finite rounds to itself.\<close>

definition py_round2 :: "pyfloat \<Rightarrow> pyfloat" where
  "py_round2 x =
     (case x of
        Finite r \<Rightarrow> round_double (of_int (py_round (r * 100)) / 100)
      | _ \<Rightarrow> x)"

subsection \<open>Parsing a vote count\<close>

text \<open>
  The conversions \<^verbatim>\<open>float(s)\<close> and \<^verbatim>\<open>int(s)\<close> of a string first make it a string of
  ASCII characters: a string with a character above code point 127 has its whitespace
  replaced by spaces and is cut after a question mark put at the first other character
  that is not below code point 127 (none of them is a decimal digit).
\<close>

definition is_ascii :: "char \<Rightarrow> bool" where
  "is_ascii c = (\<not> digit7 c)"

fun transform_to_ascii :: "string \<Rightarrow> string" where
  "transform_to_ascii [] = []"
| "transform_to_ascii (c # cs) =
     (if is_ascii c \<and> c \<noteq> CHR 0x7F then c # transform_to_ascii cs
      else if is_space c then CHR '' '' # transform_to_ascii cs
      else ''?'')"

definition to_ascii :: "string \<Rightarrow> string" where
  "to_ascii s = (if list_all is_ascii s then s else transform_to_ascii s)"

text \<open>The whitespace of the C locale, which the conversions remove at both ends of the
  ASCII string.\<close>

definition c_whitespace :: string where
  "c_whitespace = [CHR 0x09, CHR 0x0A, CHR 0x0B, CHR 0x0C, CHR 0x0D, CHR '' '']"

definition c_strip :: "string \<Rightarrow> string" where
  "c_strip s =
     rev (dropWhile (\<lambda>c. c \<in> set c_whitespace) (rev (dropWhile (\<lambda>c. c \<in> set c_whitespace) s)))"

definition digit_val :: "char \<Rightarrow> int" where
  "digit_val c = int (length (takeWhile (\<lambda>d. d \<noteq> c) digits))"

definition digits_val :: "string \<Rightarrow> int" where
  "digits_val s = foldl (\<lambda>a c. 10 * a + digit_val c) 0 s"

text \<open>An underscore is allowed between two digits only: \<open>prev\<close> is the character
  before, the null character at the start.\<close>

fun underscores_ok :: "char \<Rightarrow> string \<Rightarrow> bool" where
  "underscores_ok prev [] = (prev \<noteq> CHR ''_'')"
| "underscores_ok prev (c # cs) =
     ((if c = CHR ''_'' then is_digit prev else prev \<noteq> CHR ''_'' \<or> is_digit c)
      \<and> underscores_ok c cs)"

text \<open>An optional sign: whether it is a minus, and the rest.\<close>

definition opt_sign :: "string \<Rightarrow> bool \<times> string" where
  "opt_sign s =
     (if take 1 s = ''-'' then (True, drop 1 s)
      else if take 1 s = ''+'' then (False, drop 1 s)
      else (False, s))"

text \<open>What a string is read as: a decimal numeral \<open>\<plusminus> n \<times> 10 ^ e\<close>, given by its
  sign (whether it is a minus), its digits and its exponent, or one of the words, with
  its sign.\<close>

datatype float_literal = Decimal bool int int | Inf_literal bool | Nan_literal

text \<open>
  The syntax that \<^verbatim>\<open>float(s)\<close> accepts. The underscores are checked and removed, then
  the whitespace at both ends; what is left is a sign, and then either digits with at
  most one point among them and an optional exponent, or \<^verbatim>\<open>inf\<close>, \<^verbatim>\<open>infinity\<close> or
  \<^verbatim>\<open>nan\<close> in any case. \<open>None\<close> is the \<^verbatim>\<open>ValueError\<close> of any other string.
\<close>

definition parse_float :: "string \<Rightarrow> float_literal option" where
  "parse_float v =
     (let s = to_ascii v in
      if \<not> underscores_ok (CHR 0x00) s then None
      else let (neg, u) = opt_sign (c_strip (filter (\<lambda>c. c \<noteq> CHR ''_'') s)) in
        if lower u = ''inf'' \<or> lower u = ''infinity'' then Some (Inf_literal neg)
        else if lower u = ''nan'' then Some Nan_literal
        else let ip = takeWhile is_digit u;
                 r1 = dropWhile is_digit u;
                 fp = (if take 1 r1 = ''.'' then takeWhile is_digit (drop 1 r1) else []);
                 r2 = (if take 1 r1 = ''.'' then dropWhile is_digit (drop 1 r1) else r1)
             in if ip = [] \<and> fp = [] then None
                else if r2 = [] then Some (Decimal neg (digits_val (ip @ fp)) (- int (length fp)))
                else if take 1 r2 = ''e'' \<or> take 1 r2 = ''E'' then
                  (let (eneg, ed) = opt_sign (drop 1 r2) in
                   if ed \<noteq> [] \<and> list_all is_digit ed
                   then Some (Decimal neg (digits_val (ip @ fp))
                                ((if eneg then - digits_val ed else digits_val ed)
                                 - int (length fp)))
                   else None)
                else None)"

text \<open>The value of a decimal numeral is the double nearest to the number it denotes.\<close>

fun literal_value :: "float_literal \<Rightarrow> pyfloat" where
  "literal_value (Decimal neg n e) =
     round_double ((if neg then - 1 else 1) * of_int n
                   * (if e \<ge> 0 then 10 ^ nat e else 1 / 10 ^ nat (- e)))"
| "literal_value (Inf_literal neg) = Infinity neg"
| "literal_value Nan_literal = NaN"

definition py_float :: "string \<Rightarrow> pyfloat option" where
  "py_float v = map_option literal_value (parse_float v)"

text \<open>\<^verbatim>\<open>to_int\<close>. Rounding an infinity to an integer is an \<^verbatim>\<open>OverflowError\<close>, rounding
  what is not a number a \<^verbatim>\<open>ValueError\<close>.\<close>

definition to_int :: "string \<Rightarrow> error + int" where
  "to_int v0 =
     (let v = strip v0 in
      if v = [] then Inr 0
      else let v = replace_char (CHR '','') [] v in
        if v = ''-'' \<or> v = ''--'' then Inr 0
        else (case py_float v of
                None \<Rightarrow> Inl ValueError
              | Some NaN \<Rightarrow> Inl ValueError
              | Some (Infinity neg) \<Rightarrow> Inl OverflowError
              | Some (Finite x) \<Rightarrow> Inr (py_round x)))"

text \<open>\<^verbatim>\<open>extract_votes\<close>: the dictionary \<open>lowered\<close> is built from the items of the row in
  their order, a later key replacing an equal earlier one.\<close>

definition extract_votes :: "row \<Rightarrow> error + int" where
  "extract_votes rw =
     (let lowered = fold (\<lambda>(k, v) d. AList.update (lower (strip k)) v d) rw []
      in case find (\<lambda>key. map_of lowered key \<noteq> None) [''votes'', ''total votes'', ''total_votes''] of
           Some key \<Rightarrow> to_int (dict_get lowered key [])
         | None \<Rightarrow> Inr 0)"

text \<open>\<^verbatim>\<open>int(s)\<close> on a string, in base ten: a sign and digits, between whitespace.\<close>

definition py_int :: "string \<Rightarrow> error + int" where
  "py_int v =
     (let s = c_strip (to_ascii v);
          (neg, u) = opt_sign s
      in if u \<noteq> [] \<and> underscores_ok (CHR 0x00) u \<and> list_all is_digit (filter (\<lambda>c. c \<noteq> CHR ''_'') u)
         then Inr (let n = digits_val (filter (\<lambda>c. c \<noteq> CHR ''_'') u) in if neg then - n else n)
         else Inl ValueError)"

text \<open>\<^verbatim>\<open>pick_top_candidate\<close>: \<^verbatim>\<open>max\<close> keeps the first of the entries with the highest
  count.\<close>

fun max_by_votes :: "string \<times> int \<Rightarrow> (string \<times> int) list \<Rightarrow> string \<times> int" where
  "max_by_votes best [] = best"
| "max_by_votes best (x # xs) = max_by_votes (if snd x > snd best then x else best) xs"

definition pick_top_candidate :: "(string \<times> int) list \<Rightarrow> string" where
  "pick_top_candidate entries = (case entries of [] \<Rightarrow> [] | x # xs \<Rightarrow> fst (max_by_votes x xs))"

subsection \<open>Ingestion and exact-duplicate suppression\<close>

text \<open>A loop whose body may raise: the first error ends it.\<close>

fun fold_err :: "('a \<Rightarrow> 's \<Rightarrow> error + 's) \<Rightarrow> 'a list \<Rightarrow> 's \<Rightarrow> error + 's" where
  "fold_err f [] s = Inr s"
| "fold_err f (x # xs) s = (case f x s of Inl e \<Rightarrow> Inl e | Inr s' \<Rightarrow> fold_err f xs s')"

type_synonym entry = "string \<times> string \<times> int"

type_synonym dedupe_key = "string \<times> string \<times> string \<times> string \<times> string \<times> int"

text \<open>The four variables that \<^verbatim>\<open>main\<close> fills while it reads the input files.\<close>

record run_state =
  grouped_by_year :: "(string \<times> (string \<times> (string \<times> entry list) list) list) list"
  contest_labels_by_year :: "(string \<times> (string \<times> string) list) list"
  county_name_by_key :: "(string \<times> string) list"
  seen_entries :: "dedupe_key set"

definition initial_state :: run_state where
  "initial_state =
     \<lparr>grouped_by_year = [], contest_labels_by_year = [], county_name_by_key = [],
      seen_entries = {}\<rparr>"

text \<open>The end of the body of the loop over the rows (lines 349 to 357), for a row that
  is not skipped: the display name of the county is kept under its key unless the key
  has one, and the entry is stored unless its tuple has been seen. Reading a key of a
  \<^verbatim>\<open>defaultdict\<close> that is not there gives the default, which the assignment then
  stores. The argument is the tuple \<^verbatim>\<open>dedupe_key\<close>, the display name of the county and
  the label of the contest.\<close>

definition store_record :: "dedupe_key \<times> string \<times> string \<Rightarrow> run_state \<Rightarrow> run_state" where
  "store_record r st =
     (case r of ((yr, ctype, ckey, pty, candidate, votes), display, cname) \<Rightarrow>
        let st = st\<lparr>county_name_by_key := setdefault ckey display (county_name_by_key st)\<rparr>;
            dedupe_key = (yr, ctype, ckey, pty, candidate, votes)
        in if dedupe_key \<in> seen_entries st then st
           else let labels = dict_get (contest_labels_by_year st) yr [];
                    by_contest = dict_get (grouped_by_year st) yr [];
                    by_county = dict_get by_contest ctype [];
                    entries = dict_get by_county ckey []
                in st\<lparr>seen_entries := insert dedupe_key (seen_entries st),
                       contest_labels_by_year :=
                         AList.update yr (AList.update ctype cname labels)
                           (contest_labels_by_year st),
                       grouped_by_year :=
                         AList.update yr
                           (AList.update ctype
                              (AList.update ckey (entries @ [(pty, candidate, votes)]) by_county)
                              by_contest)
                           (grouped_by_year st)\<rparr>)"

text \<open>The body of the loop over the rows of one file (lines 329 to 357); \<open>yr\<close> is the
  year inferred from the name of the file.\<close>

definition process_row ::
  "(string \<times> string) list \<Rightarrow> input_file \<Rightarrow> string \<Rightarrow> row \<Rightarrow> run_state \<Rightarrow> error + run_state"
where
  "process_row county_lookup input_path yr rw st =
     (let cty = strip (dict_get rw ''county'' []);
          cty = (if cty = [] then infer_county_from_filename input_path else cty);
          cty = canonicalize_county_name cty county_lookup;
          office = normalize_office (dict_get rw ''office'' []);
          pty = normalize_party (dict_get rw ''party'' []);
          candidate = normalize_candidate_name (dict_get rw ''candidate'' [])
      in case extract_votes rw of
           Inl e \<Rightarrow> Inl e
         | Inr votes \<Rightarrow>
             if cty = [] then Inr st
             else (case map_of OFFICE_MAP office of
                     None \<Rightarrow> Inr st
                   | Some (ctype, cname) \<Rightarrow>
                       if candidate = [] then Inr st
                       else let ckey = county_key cty in
                         if ckey = [] then Inr st
                         else Inr (store_record
                                     ((yr, ctype, ckey, pty, candidate, votes),
                                      display_county_name cty, cname)
                                     st)))"

text \<open>The tuple \<^verbatim>\<open>dedupe_key\<close> that the body of the loop makes of a row (line 352), with
  the display name of the county and the label of the contest; \<open>None\<close> for a row that
  is skipped or whose votes do not parse.\<close>

definition vote_record ::
  "(string \<times> string) list \<Rightarrow> input_file \<Rightarrow> string \<Rightarrow> row
   \<Rightarrow> (dedupe_key \<times> string \<times> string) option"
where
  "vote_record county_lookup input_path yr rw =
     (let cty = strip (dict_get rw ''county'' []);
          cty = (if cty = [] then infer_county_from_filename input_path else cty);
          cty = canonicalize_county_name cty county_lookup;
          office = normalize_office (dict_get rw ''office'' []);
          pty = normalize_party (dict_get rw ''party'' []);
          candidate = normalize_candidate_name (dict_get rw ''candidate'' [])
      in case extract_votes rw of
           Inl e \<Rightarrow> None
         | Inr votes \<Rightarrow>
             if cty = [] then None
             else (case map_of OFFICE_MAP office of
                     None \<Rightarrow> None
                   | Some (ctype, cname) \<Rightarrow>
                       if candidate = [] then None
                       else let ckey = county_key cty in
                         if ckey = [] then None
                         else Some ((yr, ctype, ckey, pty, candidate, votes),
                                    display_county_name cty, cname)))"

text \<open>The county key of a tuple, and the order in which a run only adds to what it has
  seen: the tuples and the county keys of the first state are among those of the
  second.\<close>

definition key_county :: "dedupe_key \<Rightarrow> string" where
  "key_county k = (case k of (yr, ctype, ckey, pty, candidate, votes) \<Rightarrow> ckey)"

definition state_le :: "run_state \<Rightarrow> run_state \<Rightarrow> bool" where
  "state_le st st' =
     (seen_entries st \<subseteq> seen_entries st'
      \<and> fst ` set (county_name_by_key st) \<subseteq> fst ` set (county_name_by_key st'))"

text \<open>The body of the loop over the input paths (lines 324 to 357).\<close>

definition process_file ::
  "(string \<times> string) list \<Rightarrow> input_file \<Rightarrow> run_state \<Rightarrow> error + run_state"
where
  "process_file county_lookup input_path st =
     (if \<not> path_exists input_path then Inl FileNotFoundError
      else case infer_year_from_filename input_path of
             Inl e \<Rightarrow> Inl e
           | Inr yr \<Rightarrow> fold_err (process_row county_lookup input_path yr) (csv_rows input_path) st)"

subsection \<open>Aggregation\<close>

record county_result =
  county :: string
  contest :: string
  year :: string
  dem_candidate :: string
  rep_candidate :: string
  dem_votes :: int
  rep_votes :: int
  other_votes :: int
  total_votes :: int
  two_party_total :: int
  margin :: int
  margin_pct :: pyfloat
  winner :: string
  competitiveness :: competitiveness
  all_parties :: "(string \<times> int) list"

record contest_block =
  contest_name :: string
  results :: "(string \<times> county_result) list"

record metadata =
  title :: string
  years :: "int list"
  contests :: "string list"
  counties_count :: nat

record output_obj =
  metadata :: metadata
  results_by_year :: "(string \<times> (string \<times> (string \<times> contest_block) list) list) list"

text \<open>
  The classifier at a float. At an infinity the absolute value is infinite, so that the
  first test of the source holds; at what is not a number every comparison of the source
  is false, which leaves the last branch and the party of a tie.
\<close>

definition compute_competitiveness_at :: "pyfloat \<Rightarrow> competitiveness" where
  "compute_competitiveness_at pct =
     (case pct of
        Finite m \<Rightarrow> compute_competitiveness m
      | Infinity neg \<Rightarrow>
          \<lparr>category = ''Annihilation '' @ (if neg then ''Republican'' else ''Democratic''),
           party = (if neg then ''Republican'' else ''Democratic''),
           code = (if neg then ''R'' else ''D'') @ ''_ANNIHILATION'',
           color = (if neg then ''#67000d'' else ''#08306b'')\<rparr>
      | NaN \<Rightarrow>
          \<lparr>category = ''Tossup'', party = ''Tossup'', code = ''T_TOSSUP'', color = ''#f7f7f7''\<rparr>)"

text \<open>The result of one county in one contest of one year (lines 381 to 423), from
  the display name of the county, the label of the contest, the year and the entries
  of the county. The division of line 398 raises when its quotient is too large for a
  float.\<close>

definition county_contest_result ::
  "string \<Rightarrow> string \<Rightarrow> string \<Rightarrow> entry list \<Rightarrow> error + county_result"
where
  "county_contest_result cty cname yr entries =
     (let party_totals =
            fold (\<lambda>(pty, _, votes) pt.
                    let k = (if pty \<noteq> [] then pty else ''NONPARTISAN'')
                    in AList.update k (dict_get pt k 0 + votes) pt)
                 entries [];
          dem_entries = [(cand, v). (pty, cand, v) \<leftarrow> entries, pty = ''DEM''];
          rep_entries = [(cand, v). (pty, cand, v) \<leftarrow> entries, pty = ''REP''];
          dem = sum_list (map snd dem_entries);
          rep = sum_list (map snd rep_entries);
          total = sum_list (map (\<lambda>(_, _, v). v) entries);
          two_party = dem + rep;
          other = max 0 (total - two_party);
          mrg = dem - rep
      in case (if two_party \<noteq> 0
               then (case int_truediv mrg two_party of
                       Inl e \<Rightarrow> Inl e
                     | Inr q \<Rightarrow> Inr (py_round2 (float_mul q 100)))
               else Inr (Finite 0)) of
           Inl e \<Rightarrow> Inl e
         | Inr pct \<Rightarrow> Inr
         \<lparr>county = cty,
          contest = cname,
          year = yr,
          dem_candidate = pick_top_candidate dem_entries,
          rep_candidate = pick_top_candidate rep_entries,
          dem_votes = dem,
          rep_votes = rep,
          other_votes = other,
          total_votes = total,
          two_party_total = two_party,
          margin = mrg,
          margin_pct = pct,
          winner = (if dem > rep then ''DEM'' else if rep > dem then ''REP'' else ''TIE''),
          competitiveness = compute_competitiveness_at pct,
          all_parties = sort_key fst party_totals\<rparr>)"

text \<open>The body of the loop over the counties of a contest (lines 378 to 423). The sets
  \<^verbatim>\<open>counties_seen\<close> and \<^verbatim>\<open>all_contests\<close> are lists without repetition.\<close>

definition county_step ::
  "run_state \<Rightarrow> string \<Rightarrow> string \<Rightarrow> (string \<times> entry list) list \<Rightarrow> string
   \<Rightarrow> (string \<times> county_result) list \<times> string list
   \<Rightarrow> error + (string \<times> county_result) list \<times> string list"
where
  "county_step st yr cname county_rows ckey acc =
     (case acc of (county_results, counties_seen) \<Rightarrow>
        let entries = dict_get county_rows ckey [];
            cty = dict_get (county_name_by_key st) ckey (str_title ckey)
        in case county_contest_result cty cname yr entries of
             Inl e \<Rightarrow> Inl e
           | Inr r \<Rightarrow> Inr (AList.update cty r county_results, List.insert ckey counties_seen))"

text \<open>The body of the loop over the contests of a year (lines 371 to 431).\<close>

definition contest_step ::
  "int \<Rightarrow> run_state \<Rightarrow> string \<Rightarrow> string \<times> (string \<times> entry list) list
   \<Rightarrow> (string \<times> (string \<times> contest_block) list) list \<times> string list \<times> string list
   \<Rightarrow> error + (string \<times> (string \<times> contest_block) list) list \<times> string list \<times> string list"
where
  "contest_step min_counties st yr item acc =
     (case (item, acc) of ((ctype, county_rows), (results_for_year, all_contests, counties_seen)) \<Rightarrow>
        if int (length county_rows) < min_counties then Inr acc
        else (case map_of (dict_get (contest_labels_by_year st) yr []) ctype of
                None \<Rightarrow> Inl KeyError
              | Some cname \<Rightarrow>
                  let contest_key = ctype @ ''_'' @ yr in
                  case fold_err (county_step st yr cname county_rows)
                         (sort_key (\<lambda>x. dict_get (county_name_by_key st) x x)
                                   (map fst county_rows))
                         ([], counties_seen) of
                    Inl e \<Rightarrow> Inl e
                  | Inr (county_results, counties_seen) \<Rightarrow>
                      Inr (AList.update ctype
                             [(contest_key, \<lparr>contest_name = cname, results = county_results\<rparr>)]
                             results_for_year,
                           List.insert ctype all_contests,
                           counties_seen)))"

text \<open>The body of the loop over the years (lines 365 to 435).\<close>

definition year_step ::
  "int \<Rightarrow> run_state \<Rightarrow> string
   \<Rightarrow> (string \<times> (string \<times> (string \<times> contest_block) list) list) list
        \<times> string list \<times> int list \<times> string list
   \<Rightarrow> error + (string \<times> (string \<times> (string \<times> contest_block) list) list) list
        \<times> string list \<times> int list \<times> string list"
where
  "year_step min_counties st yr acc =
     (case acc of (by_year, all_contests, years_with_data, counties_seen) \<Rightarrow>
        let year_grouped = dict_get (grouped_by_year st) yr [] in
        if year_grouped = [] then Inr acc
        else (case fold_err (contest_step min_counties st yr) (sort_key fst year_grouped)
                     ([], all_contests, counties_seen) of
                Inl e \<Rightarrow> Inl e
              | Inr (results_for_year, all_contests, counties_seen) \<Rightarrow>
                  if results_for_year \<noteq> []
                  then (case py_int yr of
                          Inl e \<Rightarrow> Inl e
                        | Inr n \<Rightarrow>
                            Inr (AList.update yr results_for_year by_year, all_contests,
                                 years_with_data @ [n], counties_seen))
                  else Inr (by_year, all_contests, years_with_data, counties_seen)))"

text \<open>The second half of \<^verbatim>\<open>main\<close> (lines 359 to 445): the output document made of the
  state that ingestion leaves.\<close>

definition build_output :: "int \<Rightarrow> run_state \<Rightarrow> error + output_obj" where
  "build_output min_counties st =
     (case fold_err (year_step min_counties st) (sort (map fst (grouped_by_year st)))
             ([], [], [], []) of
        Inl e \<Rightarrow> Inl e
      | Inr (by_year, all_contests, years_with_data, counties_seen) \<Rightarrow>
          Inr \<lparr>metadata = \<lparr>title = ''West Virginia Election Results'',
                           years = sort years_with_data,
                           contests = sort all_contests,
                           counties_count = length counties_seen\<rparr>,
               results_by_year = by_year\<rparr>)"

text \<open>The arguments of the command line that the model uses, with the defaults of
  \<^verbatim>\<open>parse_args\<close>.\<close>

record args =
  min_year :: int
  min_counties_per_contest :: int

definition default_args :: args where
  "default_args = \<lparr>min_year = 1950, min_counties_per_contest = 20\<rparr>"

text \<open>\<^verbatim>\<open>main\<close>, from the list \<open>input_paths\<close> on (line 309): how the list is made of the
  command line and of the directory is outside the model. \<open>geo\<close> is the boundary file
  as \<open>load_county_lookup\<close> reads it. The result is the document that is written.\<close>

definition main :: "args \<Rightarrow> string list option \<Rightarrow> input_file list \<Rightarrow> error + output_obj" where
  "main a geo input_paths =
     (let county_lookup = load_county_lookup geo in
      if input_paths = [] then Inl FileNotFoundError
      else (case fold_err (process_file county_lookup) input_paths initial_state of
              Inl e \<Rightarrow> Inl e
            | Inr st \<Rightarrow> build_output (min_counties_per_contest a) st))"

text \<open>Every county result of a document, and the block of a contest in a year, if the
  document has one.\<close>

definition all_results :: "output_obj \<Rightarrow> county_result list" where
  "all_results out =
     concat (map (\<lambda>(yr, for_year).
       concat (map (\<lambda>(ctype, blocks).
         concat (map (\<lambda>(ckey, block). map snd (results block)) blocks)) for_year))
       (results_by_year out))"

definition contest_in :: "output_obj \<Rightarrow> string \<Rightarrow> string \<Rightarrow> (string \<times> contest_block) list option" where
  "contest_in out yr ctype =
     (case map_of (results_by_year out) yr of
        None \<Rightarrow> None
      | Some for_year \<Rightarrow> map_of for_year ctype)"

subsection \<open>Title case in the words of the specification\<close>

text \<open>
  The specification describes the display form of a county name in its own words: title
  case, with the letter that follows \<^verbatim>\<open>Mc\<close> capitalized. The definitions below follow
  these words, not the source, and the statements about county names compare the source
  with them: \<open>join_words\<close> is a name made of words with single spaces between them,
  \<open>capitalized\<close> a word with its first letter in upper case and its other letters in
  lower case, and \<open>title_case_word\<close> the same with the third letter of a word that begins
  with \<^verbatim>\<open>Mc\<close> in upper case as well.
\<close>

fun join_words :: "string list \<Rightarrow> string" where
  "join_words [] = []"
| "join_words [w] = w"
| "join_words (w # v # ws) = w @ '' '' @ join_words (v # ws)"

definition capitalized :: "string \<Rightarrow> string" where
  "capitalized w = (case w of [] \<Rightarrow> [] | c # cs \<Rightarrow> to_upper c # lower cs)"

definition title_case_word :: "string \<Rightarrow> string" where
  "title_case_word w =
     (let t = capitalized w in
      if take 2 t = ''Mc'' \<and> 2 < length t then ''Mc'' @ [to_upper (t ! 2)] @ drop 3 t else t)"

subsection \<open>Inputs for the examples\<close>

text \<open>A row whose vote field is not a number, in a file of its own.\<close>

definition bad_row :: row where
  "bad_row = [(''county'', ''Kanawha''), (''office'', ''PRESIDENT''), (''party'', ''DEM''),
              (''candidate'', ''Jane Doe''), (''Votes'', ''12a'')]"

definition bad_file :: input_file where
  "bad_file = \<lparr>path_name = ''20201103__wv__general__county.csv'', path_parent = ''2020'',
                path_exists = True, csv_rows = [bad_row]\<rparr>"

text \<open>Rows whose votes are under the second and under the third of the headers that
  \<^verbatim>\<open>extract_votes\<close> looks for, with a field that is not a number; a file that holds the
  first of them after a row that is in order; and a row without any of the headers.\<close>

definition good_row :: row where
  "good_row = [(''county'', ''Kanawha''), (''office'', ''PRESIDENT''), (''party'', ''REP''),
               (''candidate'', ''John Roe''), (''votes'', ''1,234'')]"

definition bad_total_row :: row where
  "bad_total_row = [(''county'', ''Kanawha''), (''office'', ''Dog Catcher''), (''party'', ''DEM''),
                    (''candidate'', ''Jane Doe''), ('' Total Votes'', ''n/a'')]"

definition bad_total_votes_row :: row where
  "bad_total_votes_row = [(''county'', ''Kanawha''), (''office'', ''PRESIDENT''),
                          (''candidate'', ''Jane Doe''), (''TOTAL_VOTES'', ''1.2.3'')]"

definition bad_total_file :: input_file where
  "bad_total_file = \<lparr>path_name = ''20201103__wv__general__county.csv'', path_parent = ''2020'',
                      path_exists = True, csv_rows = [good_row, bad_total_row]\<rparr>"

definition no_votes_row :: row where
  "no_votes_row = [(''county'', ''Kanawha''), (''office'', ''PRESIDENT''), (''party'', ''DEM''),
                   (''candidate'', ''Jane Doe''), (''ballots'', ''12'')]"

section \<open>Properties\<close>

subsection \<open>The classifier at its thresholds\<close>

text \<open>
  C2. The classifier is exact at its boundaries. A Democratic lead of exactly 40 is an
  Annihilation, of 39.99 and of exactly 30 Dominant, of exactly 20 a Stronghold, of
  exactly 10 Safe; exactly 0.99 and exactly 0.5 are Tilt, and Lean begins above 0.99
  (1 is Lean); a margin of exactly 0 is a Tossup with the code \<^verbatim>\<open>T_TOSSUP\<close>. The same
  holds for Republican leads, with the prefix \<^verbatim>\<open>R_\<close>.
\<close>

theorem classifier_boundary_values:
  "(category (compute_competitiveness 40), code (compute_competitiveness 40))
     = (''Annihilation Democratic'', ''D_ANNIHILATION'')
   \<and> (category (compute_competitiveness 39.99), code (compute_competitiveness 39.99))
     = (''Dominant Democratic'', ''D_DOMINANT'')
   \<and> (category (compute_competitiveness 30), code (compute_competitiveness 30))
     = (''Dominant Democratic'', ''D_DOMINANT'')
   \<and> (category (compute_competitiveness 20), code (compute_competitiveness 20))
     = (''Stronghold Democratic'', ''D_STRONGHOLD'')
   \<and> (category (compute_competitiveness 10), code (compute_competitiveness 10))
     = (''Safe Democratic'', ''D_SAFE'')
   \<and> (category (compute_competitiveness 1), code (compute_competitiveness 1))
     = (''Lean Democratic'', ''D_LEAN'')
   \<and> (category (compute_competitiveness 0.99), code (compute_competitiveness 0.99))
     = (''Tilt Democratic'', ''D_TILT'')
   \<and> (category (compute_competitiveness 0.5), code (compute_competitiveness 0.5))
     = (''Tilt Democratic'', ''D_TILT'')
   \<and> (category (compute_competitiveness 0), code (compute_competitiveness 0))
     = (''Tossup'', ''T_TOSSUP'')
   \<and> (category (compute_competitiveness (- 40)), code (compute_competitiveness (- 40)))
     = (''Annihilation Republican'', ''R_ANNIHILATION'')
   \<and> (category (compute_competitiveness (- 39.99)), code (compute_competitiveness (- 39.99)))
     = (''Dominant Republican'', ''R_DOMINANT'')
   \<and> (category (compute_competitiveness (- 30)), code (compute_competitiveness (- 30)))
     = (''Dominant Republican'', ''R_DOMINANT'')
   \<and> (category (compute_competitiveness (- 20)), code (compute_competitiveness (- 20)))
     = (''Stronghold Republican'', ''R_STRONGHOLD'')
   \<and> (category (compute_competitiveness (- 10)), code (compute_competitiveness (- 10)))
     = (''Safe Republican'', ''R_SAFE'')
   \<and> (category (compute_competitiveness (- 1)), code (compute_competitiveness (- 1)))
     = (''Lean Republican'', ''R_LEAN'')
   \<and> (category (compute_competitiveness (- 0.99)), code (compute_competitiveness (- 0.99)))
     = (''Tilt Republican'', ''R_TILT'')
   \<and> (category (compute_competitiveness (- 0.5)), code (compute_competitiveness (- 0.5)))
     = (''Tilt Republican'', ''R_TILT'')"
  by (simp add: compute_competitiveness_def Let_def)

text \<open>
  C3, as stated, fails: the bounds of the Likely tier and of the Lean tier are not
  inclusive. A margin whose absolute value is exactly 5.5 is not Likely, and one whose
  absolute value is exactly 0.99 is not Lean, on either side of zero.
\<close>

theorem likely_and_lean_bounds_exclusive:
  "tier_of (compute_competitiveness 5.5) \<noteq> ''LIKELY''
   \<and> tier_of (compute_competitiveness (- 5.5)) \<noteq> ''LIKELY''
   \<and> tier_of (compute_competitiveness 0.99) \<noteq> ''LEAN''
   \<and> tier_of (compute_competitiveness (- 0.99)) \<noteq> ''LEAN''"
  by (simp add: compute_competitiveness_def tier_of_def Let_def)

text \<open>
  C3, amended. The tier is a function of the absolute margin alone. The bounds 40, 30,
  20, 10 and 0.5 belong to the tier above them; the bounds 5.5 and 0.99 belong to the
  tier below them: exactly 5.5 is Lean and exactly 0.99 is Tilt, on either side of zero.
\<close>

theorem tier_thresholds:
  "tier_of (compute_competitiveness m) =
     (if \<bar>m\<bar> \<ge> 40 then ''ANNIHILATION''
      else if \<bar>m\<bar> \<ge> 30 then ''DOMINANT''
      else if \<bar>m\<bar> \<ge> 20 then ''STRONGHOLD''
      else if \<bar>m\<bar> \<ge> 10 then ''SAFE''
      else if \<bar>m\<bar> > 5.5 then ''LIKELY''
      else if \<bar>m\<bar> > 0.99 then ''LEAN''
      else if \<bar>m\<bar> \<ge> 0.5 then ''TILT''
      else ''TOSSUP'')
   \<and> tier_of (compute_competitiveness 5.5) = ''LEAN''
   \<and> tier_of (compute_competitiveness (- 5.5)) = ''LEAN''
   \<and> tier_of (compute_competitiveness 0.99) = ''TILT''
   \<and> tier_of (compute_competitiveness (- 0.99)) = ''TILT''"
proof -
  consider "m > 0" | "m < 0" | "m = 0" by linarith
  then have "tier_of (compute_competitiveness m) =
     (if \<bar>m\<bar> \<ge> 40 then ''ANNIHILATION''
      else if \<bar>m\<bar> \<ge> 30 then ''DOMINANT''
      else if \<bar>m\<bar> \<ge> 20 then ''STRONGHOLD''
      else if \<bar>m\<bar> \<ge> 10 then ''SAFE''
      else if \<bar>m\<bar> > 5.5 then ''LIKELY''
      else if \<bar>m\<bar> > 0.99 then ''LEAN''
      else if \<bar>m\<bar> \<ge> 0.5 then ''TILT''
      else ''TOSSUP'')"
    by cases (simp_all add: compute_competitiveness_def tier_of_def Let_def)
  then show ?thesis
    by (simp add: compute_competitiveness_def tier_of_def Let_def)
qed

subsection \<open>Normalization of names\<close>

text \<open>
  C7, as stated, fails: without a reference, \<^verbatim>\<open>"Mcdowell COUNTY"\<close> does not become
  \<^verbatim>\<open>"McDowell"\<close>. Only a name that is entirely in upper case is put in title case.
\<close>

theorem mixed_case_county_not_retitled:
  "canonicalize_county_name ''Mcdowell COUNTY'' (load_county_lookup None) \<noteq> ''McDowell''"
  by code_simp

text \<open>Facts about the letters, read off the tables.\<close>

lemma letter_table:
  "list_all (\<lambda>c. \<not> is_space c \<and> is_alpha c \<and> is_word c \<and> c \<noteq> CHR '' '' \<and> c \<noteq> CHR 0xDF
      \<and> to_lower c \<in> set ascii_lowercase \<and> to_upper c \<in> set ascii_uppercase)
     (ascii_uppercase @ ascii_lowercase)"
  by code_simp

lemma letter_facts:
  assumes "c \<in> set (ascii_uppercase @ ascii_lowercase)"
  shows "\<not> is_space c" "is_alpha c" "is_word c" "c \<noteq> CHR '' ''" "c \<noteq> CHR 0xDF"
    "to_lower c \<in> set ascii_lowercase" "to_upper c \<in> set ascii_uppercase"
  using letter_table assms unfolding list_all_iff by blast+

lemma lower_table:
  "list_all (\<lambda>c. in_a_z c \<and> is_word c \<and> to_lower c = c \<and> is_lower c \<and> c \<noteq> CHR ''M''
      \<and> c \<in> set (ascii_uppercase @ ascii_lowercase) \<and> to_upper c \<noteq> c
      \<and> to_upper c \<in> set ascii_uppercase)
     ascii_lowercase"
  by code_simp

lemma lower_facts:
  assumes "c \<in> set ascii_lowercase"
  shows "in_a_z c" "is_word c" "to_lower c = c" "is_lower c" "c \<noteq> CHR ''M''"
    "c \<in> set (ascii_uppercase @ ascii_lowercase)" "to_upper c \<noteq> c"
    "to_upper c \<in> set ascii_uppercase"
  using lower_table assms unfolding list_all_iff by blast+

lemma upper_table:
  "list_all (\<lambda>c. to_upper c = c \<and> is_upper c \<and> \<not> is_lower c \<and> \<not> in_a_z c \<and> c \<noteq> CHR ''c''
      \<and> c \<in> set (ascii_uppercase @ ascii_lowercase))
     ascii_uppercase"
  by code_simp

lemma upper_facts:
  assumes "c \<in> set ascii_uppercase"
  shows "to_upper c = c" "is_upper c" "\<not> is_lower c" "\<not> in_a_z c" "c \<noteq> CHR ''c''"
    "c \<in> set (ascii_uppercase @ ascii_lowercase)"
  using upper_table assms unfolding list_all_iff by blast+

lemma space_facts:
  "is_space (CHR '' '')" "\<not> is_alpha (CHR '' '')" "\<not> is_word (CHR '' '')"
  "to_lower (CHR '' '') = CHR '' ''" "\<not> is_lower (CHR '' '')" "\<not> in_a_z (CHR '' '')"
  "\<not> is_upper (CHR '' '')"
  by code_simp+

text \<open>A name made of words of letters goes through the steps of the normalization word by
  word.\<close>

lemma sub_spaces_word:
  "w \<noteq> [] \<Longrightarrow> set w \<subseteq> set (ascii_uppercase @ ascii_lowercase)
   \<Longrightarrow> sub_spaces_from b (w @ r) = w @ sub_spaces_from False r"
proof (induction w arbitrary: b)
  case Nil
  then show ?case by simp
next
  case (Cons c cs)
  from Cons.prems have c: "\<not> is_space c" by (simp add: letter_facts)
  show ?case
  proof (cases "cs = []")
    case True
    with c show ?thesis by simp
  next
    case False
    with Cons.prems Cons.IH [of False] c show ?thesis by simp
  qed
qed

lemma sub_spaces_join:
  "ws \<noteq> [] \<Longrightarrow> \<forall>w\<in>set ws. w \<noteq> [] \<and> set w \<subseteq> set (ascii_uppercase @ ascii_lowercase)
   \<Longrightarrow> sub_spaces_from b (join_words ws @ r) = join_words ws @ sub_spaces_from False r"
proof (induction ws arbitrary: b rule: join_words.induct)
  case 1
  then show ?case by simp
next
  case (2 w)
  then show ?case by (simp add: sub_spaces_word)
next
  case (3 w v ws)
  from "3.prems" have w: "w \<noteq> []" "set w \<subseteq> set (ascii_uppercase @ ascii_lowercase)" by simp_all
  from "3.prems" have "sub_spaces_from True (join_words (v # ws) @ r)
      = join_words (v # ws) @ sub_spaces_from False r"
    by (intro "3.IH") simp_all
  then show ?case
    by (simp add: sub_spaces_word [OF w] space_facts)
qed

lemma title_lower_run:
  "set w \<subseteq> set (ascii_uppercase @ ascii_lowercase)
   \<Longrightarrow> title_from True (w @ r) = lower w @ title_from True r"
  by (induction w) (simp_all add: lower_def letter_facts)

lemma title_word:
  "w \<noteq> [] \<Longrightarrow> set w \<subseteq> set (ascii_uppercase @ ascii_lowercase)
   \<Longrightarrow> title_from False (w @ r) = capitalized w @ title_from True r"
  by (cases w) (simp_all add: capitalized_def title_lower_run letter_facts)

lemma title_join:
  "ws \<noteq> [] \<Longrightarrow> \<forall>w\<in>set ws. w \<noteq> [] \<and> set w \<subseteq> set (ascii_uppercase @ ascii_lowercase)
   \<Longrightarrow> title_from False (join_words ws @ r)
       = join_words (map capitalized ws) @ title_from True r"
proof (induction ws rule: join_words.induct)
  case 1
  then show ?case by simp
next
  case (2 w)
  then show ?case by (simp add: title_word)
next
  case (3 w v ws)
  from "3.prems" have w: "w \<noteq> []" "set w \<subseteq> set (ascii_uppercase @ ascii_lowercase)" by simp_all
  from "3.prems" have "title_from False (join_words (v # ws) @ r)
      = join_words (map capitalized (v # ws)) @ title_from True r"
    by (intro "3.IH") simp_all
  then show ?case
    by (simp add: title_word [OF w] space_facts)
qed

lemma mc_lower_run:
  "set l \<subseteq> set ascii_lowercase
   \<Longrightarrow> re_sub match_mc 0 True (l @ r) = l @ re_sub match_mc 0 True r"
  by (induction l) (simp_all add: match_mc_def word_boundary_def lower_facts)

lemma mc_space:
  "re_sub match_mc 0 True (CHR '' '' # s) = CHR '' '' # re_sub match_mc 0 False s"
  by (simp add: match_mc_def space_facts)

lemma mc_word:
  assumes C: "C \<in> set ascii_uppercase" and l: "set l \<subseteq> set ascii_lowercase"
    and r: "r = [] \<or> hd r = CHR '' ''"
  shows "re_sub match_mc 0 False ((C # l) @ r)
    = (if take 2 (C # l) = ''Mc'' \<and> 2 < length (C # l)
       then ''Mc'' @ [to_upper ((C # l) ! 2)] @ drop 3 (C # l) else C # l)
      @ re_sub match_mc 0 True r"
proof -
  have wC: "is_word C" using C by (simp add: letter_facts upper_facts)
  from r have r2: "take 1 r \<noteq> ''c''" "r \<noteq> [] \<Longrightarrow> \<not> in_a_z (hd r)"
    by (cases r; auto simp: space_facts)+
  show ?thesis
  proof (cases l)
    case Nil
    with r2 wC show ?thesis
      by (cases r) (auto simp: match_mc_def)
  next
    case l1: (Cons x l')
    from l l1 have x: "x \<in> set ascii_lowercase" by simp
    show ?thesis
    proof (cases l')
      case Nil
      have "match_mc False (C # x # r) = None"
        using r2 by (cases r) (auto simp: match_mc_def)
      with l1 Nil wC mc_lower_run [of "[x]" r] x show ?thesis
        by simp
    next
      case l2: (Cons y l'')
      from l l1 l2 have y: "y \<in> set ascii_lowercase" and l'': "set l'' \<subseteq> set ascii_lowercase"
        by simp_all
      have run: "re_sub match_mc 0 True (l'' @ r) = l'' @ re_sub match_mc 0 True r"
        using l'' by (rule mc_lower_run)
      show ?thesis
      proof (cases "C = CHR ''M'' \<and> x = CHR ''c''")
        case True
        have wM: "is_word (CHR ''M'')" by code_simp
        from True have "match_mc False (C # x # y # l'' @ r) = Some (3, ''Mc'' @ upper [y])"
          using y by (simp add: match_mc_def word_boundary_def wM lower_facts)
        moreover have "upper [y] = [to_upper y]"
          using y by (simp add: upper_def letter_facts lower_facts)
        ultimately show ?thesis
          using True l1 l2 run y wM
          by (simp add: numeral_3_eq_3 numeral_2_eq_2 lower_facts)
      next
        case False
        then have "match_mc False (C # x # y # l'' @ r) = None"
          by (auto simp: match_mc_def)
        moreover have "re_sub match_mc 0 True ((x # y # l'') @ r) = (x # y # l'') @ re_sub match_mc 0 True r"
          by (rule mc_lower_run) (use x y l'' in simp)
        ultimately show ?thesis
          using False l1 l2 wC by auto
      qed
    qed
  qed
qed

lemma capitalized_shape:
  assumes "w \<noteq> []" "set w \<subseteq> set (ascii_uppercase @ ascii_lowercase)"
  obtains C l where "capitalized w = C # l" "C \<in> set ascii_uppercase" "set l \<subseteq> set ascii_lowercase"
proof (cases w)
  case Nil
  with assms show ?thesis by simp
next
  case (Cons c cs)
  with assms have "to_upper c \<in> set ascii_uppercase" "set (lower cs) \<subseteq> set ascii_lowercase"
    by (auto simp: lower_def letter_facts)
  with Cons that show ?thesis
    by (simp add: capitalized_def)
qed

lemma mc_capitalized:
  assumes "w \<noteq> []" "set w \<subseteq> set (ascii_uppercase @ ascii_lowercase)"
    and "r = [] \<or> hd r = CHR '' ''"
  shows "re_sub match_mc 0 False (capitalized w @ r) = title_case_word w @ re_sub match_mc 0 True r"
proof -
  from assms(1,2) obtain C l where s: "capitalized w = C # l" "C \<in> set ascii_uppercase"
    "set l \<subseteq> set ascii_lowercase"
    by (rule capitalized_shape)
  from mc_word [OF s(2,3) assms(3)] show ?thesis
    by (simp add: title_case_word_def Let_def s(1))
qed

lemma mc_join:
  "ws \<noteq> [] \<Longrightarrow> \<forall>w\<in>set ws. w \<noteq> [] \<and> set w \<subseteq> set (ascii_uppercase @ ascii_lowercase)
   \<Longrightarrow> re_sub match_mc 0 False (join_words (map capitalized ws))
       = join_words (map title_case_word ws)"
proof (induction ws rule: join_words.induct)
  case 1
  then show ?case by simp
next
  case (2 w)
  with mc_capitalized [of w "[]"] show ?case by simp
next
  case (3 w v ws)
  from "3.prems" have w: "w \<noteq> []" "set w \<subseteq> set (ascii_uppercase @ ascii_lowercase)" by simp_all
  from "3.prems" have IH: "re_sub match_mc 0 False (join_words (map capitalized (v # ws)))
      = join_words (map title_case_word (v # ws))"
    by (intro "3.IH") simp_all
  have "re_sub match_mc 0 False (capitalized w @ CHR '' '' # join_words (map capitalized (v # ws)))
      = title_case_word w @ re_sub match_mc 0 True (CHR '' '' # join_words (map capitalized (v # ws)))"
    by (rule mc_capitalized [OF w]) simp
  with IH show ?case
    by (simp add: mc_space del: re_sub.simps)
qed

lemma join_ends:
  "ws \<noteq> [] \<Longrightarrow> \<forall>w\<in>set ws. w \<noteq> [] \<and> set w \<subseteq> set (ascii_uppercase @ ascii_lowercase)
   \<Longrightarrow> join_words ws \<noteq> []
       \<and> hd (join_words ws) \<in> set (ascii_uppercase @ ascii_lowercase)
       \<and> last (join_words ws) \<in> set (ascii_uppercase @ ascii_lowercase)"
proof (induction ws rule: join_words.induct)
  case 1
  then show ?case by simp
next
  case (2 w)
  then have "w \<noteq> []" "set w \<subseteq> set (ascii_uppercase @ ascii_lowercase)" by simp_all
  then have "hd w \<in> set (ascii_uppercase @ ascii_lowercase)"
    "last w \<in> set (ascii_uppercase @ ascii_lowercase)"
    by (meson hd_in_set last_in_set subsetD)+
  with \<open>w \<noteq> []\<close> show ?case by simp
next
  case (3 w v ws)
  from "3.prems" have w: "w \<noteq> []" "set w \<subseteq> set (ascii_uppercase @ ascii_lowercase)" by simp_all
  then have h: "hd w \<in> set (ascii_uppercase @ ascii_lowercase)"
    by (meson hd_in_set subsetD)
  from "3.prems" have "join_words (v # ws) \<noteq> []
       \<and> last (join_words (v # ws)) \<in> set (ascii_uppercase @ ascii_lowercase)"
    using "3.IH" by simp
  with w h show ?case by simp
qed

lemma join_chars:
  "set (join_words ws) \<subseteq> insert (CHR '' '') (\<Union> (set ` set ws))"
  "\<Union> (set ` set ws) \<subseteq> set (join_words ws)"
  by (induction ws rule: join_words.induct) auto

lemma strip_id:
  assumes "x \<noteq> []" "\<not> is_space (hd x)" "\<not> is_space (last x)"
  shows "strip x = x"
proof -
  from assms have "dropWhile is_space x = x" "dropWhile is_space (rev x) = rev x"
    by (simp_all add: dropWhile_eq_self_iff hd_rev)
  then show ?thesis by (simp add: strip_def)
qed

lemma county_suffix:
  assumes "n \<noteq> []" "\<not> is_space (last n)"
  shows "sub_county_suffix (n @ '' COUNTY'') = n"
proof -
  have l: "lower ''YTNUOC'' = rev ''county''" by code_simp
  from assms have "dropWhile is_space (rev n) = rev n"
    by (simp add: dropWhile_eq_self_iff hd_rev)
  then show ?thesis
    using l by (simp add: sub_county_suffix_def Let_def space_facts)
qed

lemma normalize_join:
  assumes "ws \<noteq> []" "\<forall>w\<in>set ws. w \<noteq> [] \<and> set w \<subseteq> set (ascii_uppercase @ ascii_lowercase)"
  shows "normalize_county_name (join_words ws @ '' COUNTY'') = join_words ws"
proof -
  from join_ends [OF assms] have e: "join_words ws \<noteq> []"
    "\<not> is_space (hd (join_words ws))" "\<not> is_space (last (join_words ws))"
    by (simp_all add: letter_facts)
  have y: "\<not> is_space (CHR ''Y'')" by code_simp
  have "strip (join_words ws @ '' COUNTY'') = join_words ws @ '' COUNTY''"
    using e y by (intro strip_id) (simp_all)
  moreover have "sub_spaces_from False '' COUNTY'' = '' COUNTY''" by code_simp
  then have "sub_spaces (join_words ws @ '' COUNTY'') = join_words ws @ '' COUNTY''"
    unfolding sub_spaces_def by (simp only: sub_spaces_join [OF assms])
  ultimately show ?thesis
    using e by (simp add: normalize_county_name_def county_suffix)
qed

lemma display_upper_words:
  assumes "ws \<noteq> []" "\<forall>w\<in>set ws. w \<noteq> [] \<and> set w \<subseteq> set ascii_uppercase"
  shows "display_county_name (join_words ws @ '' COUNTY'') = join_words (map title_case_word ws)"
proof -
  from assms(2) have v: "\<forall>w\<in>set ws. w \<noteq> [] \<and> set w \<subseteq> set (ascii_uppercase @ ascii_lowercase)"
    by auto
  have n: "normalize_county_name (join_words ws @ '' COUNTY'') = join_words ws"
    by (rule normalize_join [OF assms(1) v])
  from join_ends [OF assms(1) v] have ne: "join_words ws \<noteq> []" by simp
  from assms obtain w c where wc: "w \<in> set ws" "c \<in> set w" "c \<in> set ascii_uppercase"
    by (metis last_in_set subsetD)
  then have "c \<in> set (join_words ws)" using join_chars(2) [of ws] by auto
  moreover from wc(3) have "is_alpha c" by (simp add: is_alpha_def upper_facts)
  ultimately have ex: "list_ex is_alpha (join_words ws)"
    unfolding list_ex_iff by blast
  have "\<not> is_lower c" if "c \<in> set (join_words ws)" for c
  proof -
    from that join_chars(1) [of ws] have "c = CHR '' '' \<or> (\<exists>w\<in>set ws. c \<in> set w)" by auto
    with assms(2) have "c = CHR '' '' \<or> c \<in> set ascii_uppercase" by blast
    then show ?thesis using space_facts(5) upper_facts(3) by blast
  qed
  then have "\<not> list_ex is_lower (join_words ws)"
    unfolding list_ex_iff by blast
  with ex have up: "isupper (join_words ws)" by (simp add: isupper_def)
  have "str_title (join_words ws) = join_words (map capitalized ws)"
    using title_join [OF assms(1) v, of "[]"] by (simp add: str_title_def)
  with n ne up mc_join [OF assms(1) v] show ?thesis
    by (simp add: display_county_name_def Let_def)
qed

lemma display_mixed_words:
  assumes "ws \<noteq> []" "\<forall>w\<in>set ws. w \<noteq> [] \<and> set w \<subseteq> set (ascii_uppercase @ ascii_lowercase)"
    and "\<exists>w\<in>set ws. \<exists>c\<in>set w. c \<in> set ascii_lowercase"
  shows "display_county_name (join_words ws @ '' COUNTY'') = join_words ws"
proof -
  have n: "normalize_county_name (join_words ws @ '' COUNTY'') = join_words ws"
    by (rule normalize_join [OF assms(1,2)])
  from assms(3) obtain w c where wc: "w \<in> set ws" "c \<in> set w" "c \<in> set ascii_lowercase"
    by blast
  then have "c \<in> set (join_words ws)" using join_chars(2) [of ws] by auto
  moreover from wc(3) have "is_lower c" by (simp add: lower_facts)
  ultimately have "list_ex is_lower (join_words ws)"
    unfolding list_ex_iff by blast
  then have "\<not> isupper (join_words ws)" by (simp add: isupper_def)
  with n show ?thesis
    by (simp add: display_county_name_def Let_def)
qed

text \<open>
  C7, amended. The suffix \<^verbatim>\<open>COUNTY\<close> is stripped. Without a reference, the name that is
  left is displayed: a name that is entirely in upper case is put in title case with the
  letter after \<^verbatim>\<open>Mc\<close> capitalized, and any other name keeps its letters. So
  \<^verbatim>\<open>"MCDOWELL COUNTY"\<close> becomes \<^verbatim>\<open>"McDowell"\<close> and \<^verbatim>\<open>"Mcdowell COUNTY"\<close>
  becomes \<^verbatim>\<open>"Mcdowell"\<close>. For a name made of words of capital letters with single spaces
  between them, title case is what the specification says: every word is capitalized,
  and the letter after \<^verbatim>\<open>Mc\<close> as well; a name made of words of letters of which one is
  a small letter is left as it is. With a reference that holds McDowell under its token,
  \<^verbatim>\<open>"Mcdowell COUNTY"\<close> resolves to \<^verbatim>\<open>"McDowell"\<close>.
\<close>

theorem county_normalization_mcdowell:
  "canonicalize_county_name ''MCDOWELL COUNTY'' (load_county_lookup None) = ''McDowell''
   \<and> canonicalize_county_name ''Mcdowell COUNTY'' (load_county_lookup None) = ''Mcdowell''
   \<and> (map_of county_lookup ''mcdowell'' = Some ''McDowell''
        \<longrightarrow> canonicalize_county_name ''Mcdowell COUNTY'' county_lookup = ''McDowell'')
   \<and> canonicalize_county_name v (load_county_lookup None)
       = (if normalize_county_name v = [] then []
          else display_county_name (normalize_county_name v))
   \<and> (isupper (normalize_county_name v)
        \<longrightarrow> display_county_name v = re_sub match_mc 0 False (str_title (normalize_county_name v)))
   \<and> (\<not> isupper (normalize_county_name v)
        \<longrightarrow> display_county_name v = normalize_county_name v)
   \<and> (ws \<noteq> [] \<and> (\<forall>w\<in>set ws. w \<noteq> [] \<and> set w \<subseteq> set ascii_uppercase)
        \<longrightarrow> display_county_name (join_words ws @ '' COUNTY'')
            = join_words (map title_case_word ws))
   \<and> (ws \<noteq> [] \<and> (\<forall>w\<in>set ws. w \<noteq> [] \<and> set w \<subseteq> set (ascii_uppercase @ ascii_lowercase))
        \<and> (\<exists>w\<in>set ws. \<exists>c\<in>set w. c \<in> set ascii_lowercase)
        \<longrightarrow> display_county_name (join_words ws @ '' COUNTY'') = join_words ws)"
proof -
  have n: "normalize_county_name ''Mcdowell COUNTY'' = ''Mcdowell''"
    by code_simp
  have t: "county_norm_token ''Mcdowell'' = ''mcdowell''"
    by code_simp
  have a: "map_of COUNTY_ALIASES ''mcdowell'' = None"
    by (simp add: COUNTY_ALIASES_def)
  have 1: "canonicalize_county_name ''MCDOWELL COUNTY'' (load_county_lookup None) = ''McDowell''"
    by code_simp
  have 2: "canonicalize_county_name ''Mcdowell COUNTY'' (load_county_lookup None) = ''Mcdowell''"
    by code_simp
  have 3: "canonicalize_county_name ''Mcdowell COUNTY'' county_lookup = ''McDowell''"
    if "map_of county_lookup ''mcdowell'' = Some ''McDowell''"
  proof -
    from that have "county_lookup \<noteq> []" by auto
    with that show ?thesis
      by (simp add: canonicalize_county_name_def n t a Let_def dict_get_def)
  qed
  have 4: "canonicalize_county_name v (load_county_lookup None)
       = (if normalize_county_name v = [] then []
          else display_county_name (normalize_county_name v))"
    by (simp add: canonicalize_county_name_def load_county_lookup_def Let_def)
  have 5: "display_county_name v = re_sub match_mc 0 False (str_title (normalize_county_name v))"
    if "isupper (normalize_county_name v)"
  proof -
    from that have "normalize_county_name v \<noteq> []" by (auto simp: isupper_def)
    with that show ?thesis by (simp add: display_county_name_def Let_def)
  qed
  have 6: "display_county_name v = normalize_county_name v"
    if "\<not> isupper (normalize_county_name v)"
    using that by (simp add: display_county_name_def Let_def)
  have 7: "display_county_name (join_words ws @ '' COUNTY'') = join_words (map title_case_word ws)"
    if "ws \<noteq> []" "\<forall>w\<in>set ws. w \<noteq> [] \<and> set w \<subseteq> set ascii_uppercase"
    using that by (rule display_upper_words)
  have 8: "display_county_name (join_words ws @ '' COUNTY'') = join_words ws"
    if "ws \<noteq> []" "\<forall>w\<in>set ws. w \<noteq> [] \<and> set w \<subseteq> set (ascii_uppercase @ ascii_lowercase)"
      "\<exists>w\<in>set ws. \<exists>c\<in>set w. c \<in> set ascii_lowercase"
    using that by (rule display_mixed_words)
  show ?thesis
    apply (intro conjI impI)
    subgoal by (rule 1)
    subgoal by (rule 2)
    subgoal by (rule 3)
    subgoal by (rule 4)
    subgoal by (rule 5)
    subgoal by (rule 6)
    subgoal by (rule 7) blast+
    subgoal by (rule 8) blast+
    done
qed

text \<open>The reference made of the county names Kanawha and McDowell is such a reference;
  the names \<^verbatim>\<open>"NEW RIVER MCCOY COUNTY"\<close> and \<^verbatim>\<open>"New RIVER Mccoy COUNTY"\<close> are such
  names.\<close>

theorem county_normalization_mcdowell_witness:
  "map_of (load_county_lookup (Some [''Kanawha'', ''McDowell''])) ''mcdowell'' = Some ''McDowell''
   \<and> canonicalize_county_name ''Mcdowell COUNTY''
        (load_county_lookup (Some [''Kanawha'', ''McDowell''])) = ''McDowell''
   \<and> display_county_name ''MCDOWELL COUNTY'' = ''McDowell''
   \<and> display_county_name ''Mcdowell COUNTY'' = ''Mcdowell''
   \<and> display_county_name ''NEW RIVER MCCOY COUNTY'' = ''New River McCoy''
   \<and> display_county_name ''New RIVER Mccoy COUNTY'' = ''New RIVER Mccoy''"
proof -
  note c2 = conjunct2
  note cn = county_normalization_mcdowell
  have h: "map_of (load_county_lookup (Some [''Kanawha'', ''McDowell''])) ''mcdowell'' = Some ''McDowell''"
    by code_simp
  have 1: "canonicalize_county_name ''Mcdowell COUNTY''
        (load_county_lookup (Some [''Kanawha'', ''McDowell''])) = ''McDowell''"
    by (rule cn [of "load_county_lookup (Some [''Kanawha'', ''McDowell''])",
          THEN c2, THEN c2, THEN conjunct1, THEN mp]) (rule h)
  have u: "isupper (normalize_county_name ''MCDOWELL COUNTY'')" by code_simp
  have v1: "re_sub match_mc 0 False (str_title (normalize_county_name ''MCDOWELL COUNTY'')) = ''McDowell''"
    by code_simp
  have "display_county_name ''MCDOWELL COUNTY''
      = re_sub match_mc 0 False (str_title (normalize_county_name ''MCDOWELL COUNTY''))"
    by (rule cn [of _ "''MCDOWELL COUNTY''", THEN c2, THEN c2, THEN c2, THEN c2, THEN conjunct1,
          THEN mp]) (rule u)
  then have 2: "display_county_name ''MCDOWELL COUNTY'' = ''McDowell''" by (simp only: v1)
  have m: "\<not> isupper (normalize_county_name ''Mcdowell COUNTY'')" by code_simp
  have v2: "normalize_county_name ''Mcdowell COUNTY'' = ''Mcdowell''" by code_simp
  have "display_county_name ''Mcdowell COUNTY'' = normalize_county_name ''Mcdowell COUNTY''"
    by (rule cn [of _ "''Mcdowell COUNTY''", THEN c2, THEN c2, THEN c2, THEN c2, THEN c2,
          THEN conjunct1, THEN mp]) (rule m)
  then have 3: "display_county_name ''Mcdowell COUNTY'' = ''Mcdowell''" by (simp only: v2)
  have w: "[''NEW'', ''RIVER'', ''MCCOY''] \<noteq> []
      \<and> (\<forall>w\<in>set [''NEW'', ''RIVER'', ''MCCOY'']. w \<noteq> [] \<and> set w \<subseteq> set ascii_uppercase)"
    by code_simp
  have v3: "join_words [''NEW'', ''RIVER'', ''MCCOY''] @ '' COUNTY'' = ''NEW RIVER MCCOY COUNTY''"
    "join_words (map title_case_word [''NEW'', ''RIVER'', ''MCCOY'']) = ''New River McCoy''"
    by code_simp+
  have "display_county_name (join_words [''NEW'', ''RIVER'', ''MCCOY''] @ '' COUNTY'')
      = join_words (map title_case_word [''NEW'', ''RIVER'', ''MCCOY''])"
    by (rule cn [of _ _ "[''NEW'', ''RIVER'', ''MCCOY'']", THEN c2, THEN c2, THEN c2, THEN c2,
          THEN c2, THEN c2, THEN conjunct1, THEN mp]) (rule w)
  then have 4: "display_county_name ''NEW RIVER MCCOY COUNTY'' = ''New River McCoy''"
    by (simp only: v3)
  have x: "[''New'', ''RIVER'', ''Mccoy''] \<noteq> []
      \<and> (\<forall>w\<in>set [''New'', ''RIVER'', ''Mccoy''].
            w \<noteq> [] \<and> set w \<subseteq> set (ascii_uppercase @ ascii_lowercase))
      \<and> (\<exists>w\<in>set [''New'', ''RIVER'', ''Mccoy'']. \<exists>c\<in>set w. c \<in> set ascii_lowercase)"
    by code_simp
  have v4: "join_words [''New'', ''RIVER'', ''Mccoy''] @ '' COUNTY'' = ''New RIVER Mccoy COUNTY''"
    "join_words [''New'', ''RIVER'', ''Mccoy''] = ''New RIVER Mccoy''"
    by code_simp+
  have "display_county_name (join_words [''New'', ''RIVER'', ''Mccoy''] @ '' COUNTY'')
      = join_words [''New'', ''RIVER'', ''Mccoy'']"
    by (rule cn [of _ _ "[''New'', ''RIVER'', ''Mccoy'']", THEN c2, THEN c2, THEN c2, THEN c2,
          THEN c2, THEN c2, THEN c2, THEN mp]) (rule x)
  then have 5: "display_county_name ''New RIVER Mccoy COUNTY'' = ''New RIVER Mccoy''"
    by (simp add: v4(2))
  show ?thesis
    by (intro conjI h 1 2 3 4 5)
qed

text \<open>
  C8. Normalizing a candidate name twice should give what normalizing it once gives.
  It does not for a name that ends in \<^verbatim>\<open>Jr\<close>: the pattern \<^verbatim>\<open>\bJr\.?\b\<close> cannot take
  a period that ends the name or that a space follows, since no word boundary follows
  such a period, so each pass adds one more period.
\<close>

theorem jr_suffix_gains_a_period:
  "normalize_candidate_name ''John Smith Jr'' = ''John Smith Jr.''
   \<and> normalize_candidate_name (normalize_candidate_name ''John Smith Jr'') = ''John Smith Jr..''"
  by code_simp

subsection \<open>Parsing of vote counts\<close>

lemma py_round_nearest: "\<bar>of_int (py_round x) - x\<bar> \<le> 1 / 2"
proof -
  have "of_int \<lfloor>x\<rfloor> \<le> x" "x < of_int \<lfloor>x\<rfloor> + 1" by linarith+
  then show ?thesis
    unfolding py_round_def Let_def by (simp split: if_splits)
qed

lemma fold_err_raises:
  assumes "x \<in> set xs" and "\<And>s. \<exists>e. f x s = Inl e"
  shows "\<exists>e. fold_err f xs s = Inl e"
  using assms(1)
proof (induction xs arbitrary: s)
  case Nil
  then show ?case by simp
next
  case (Cons y ys)
  show ?case
  proof (cases "f y s")
    case (Inl e)
    then show ?thesis by simp
  next
    case (Inr s')
    show ?thesis
    proof (cases "x = y")
      case True
      with assms(2) [of s] Inr show ?thesis by auto
    next
      case False
      with Cons Inr show ?thesis by auto
    qed
  qed
qed

lemma process_row_raises:
  "extract_votes rw = Inl e \<Longrightarrow> process_row lk f yr rw st = Inl e"
  by (simp add: process_row_def Let_def)

lemma process_file_raises:
  assumes "rw \<in> set (csv_rows f)" and "extract_votes rw = Inl e"
  shows "\<exists>e'. process_file lk f st = Inl e'"
proof -
  have "\<exists>e'. fold_err (process_row lk f yr) (csv_rows f) st = Inl e'" for yr
    by (rule fold_err_raises [OF assms(1)]) (simp add: process_row_raises [OF assms(2)])
  then show ?thesis
    by (auto simp: process_file_def split: sum.splits)
qed

lemma main_raises:
  assumes "f \<in> set fs" and "rw \<in> set (csv_rows f)" and "extract_votes rw = Inl e"
  shows "\<exists>e'. main a geo fs = Inl e'"
proof -
  have "\<exists>e'. fold_err (process_file (load_county_lookup geo)) fs initial_state = Inl e'"
    by (rule fold_err_raises [OF assms(1)]) (rule process_file_raises [OF assms(2,3)])
  then show ?thesis
    by (auto simp: main_def Let_def)
qed

lemma map_of_fold_update:
  "map_of (fold (\<lambda>(k, v) d. AList.update (g k) v d) rw d0) key =
     (case map_of (rev (map (\<lambda>(k, v). (g k, v)) rw)) key of
        Some v \<Rightarrow> Some v | None \<Rightarrow> map_of d0 key)"
proof (induction rw arbitrary: d0)
  case Nil
  then show ?case by simp
next
  case (Cons p rw)
  obtain k v where p: "p = (k, v)" by (cases p)
  show ?case
    unfolding p by (simp add: Cons update_conv' map_add_def split: option.splits)
qed

lemma lowered_absent:
  assumes "\<forall>(k', v') \<in> set rw. lower (strip k') \<noteq> key"
  shows "map_of (fold (\<lambda>(k, v) d. AList.update (lower (strip k)) v d) rw []) key = None"
proof -
  define al where "al = rev (map (\<lambda>(k, v). (lower (strip k), v)) rw)"
  from assms have "key \<notin> fst ` set al"
    unfolding al_def by (auto simp: image_iff)
  then have "map_of al key = None"
    by (simp add: map_of_eq_None_iff)
  then show ?thesis
    unfolding al_def by (simp add: map_of_fold_update)
qed

lemma lowered_present:
  assumes kv: "(k, v) \<in> set rw" and k: "lower (strip k) = key"
    and all: "\<forall>(k', v') \<in> set rw. lower (strip k') = key \<longrightarrow> v' = v"
  shows "map_of (fold (\<lambda>(k, v) d. AList.update (lower (strip k)) v d) rw []) key = Some v"
proof -
  define al where "al = rev (map (\<lambda>(k, v). (lower (strip k), v)) rw)"
  from kv k have "(key, v) \<in> set al"
    unfolding al_def by (auto simp: image_iff intro!: bexI [of _ "(k, v)"])
  then have "map_of al key \<noteq> None"
    by (simp add: weak_map_of_SomeI map_of_eq_None_iff image_iff rev_bexI)
  then obtain v' where v': "map_of al key = Some v'" by blast
  then have "(key, v') \<in> set al" by (rule map_of_SomeD)
  then obtain k' where "(k', v') \<in> set rw" "lower (strip k') = key"
    unfolding al_def by auto
  with all have "v' = v" by blast
  with v' show ?thesis
    unfolding al_def by (simp add: map_of_fold_update)
qed

lemma extract_votes_first:
  assumes "(k, v) \<in> set rw" and "lower (strip k) = ''votes''"
    and "\<forall>(k', v') \<in> set rw. lower (strip k') = ''votes'' \<longrightarrow> v' = v"
  shows "extract_votes rw = to_int v"
  using lowered_present [OF assms]
  by (simp add: extract_votes_def Let_def dict_get_def)

lemma extract_votes_second:
  assumes "\<forall>(k', v') \<in> set rw. lower (strip k') \<noteq> ''votes''"
    and "(k, v) \<in> set rw" and "lower (strip k) = ''total votes''"
    and "\<forall>(k', v') \<in> set rw. lower (strip k') = ''total votes'' \<longrightarrow> v' = v"
  shows "extract_votes rw = to_int v"
  using lowered_absent [OF assms(1)] lowered_present [OF assms(2-4)]
  by (simp add: extract_votes_def Let_def dict_get_def)

lemma extract_votes_third:
  assumes "\<forall>(k', v') \<in> set rw. lower (strip k') \<noteq> ''votes''"
    and "\<forall>(k', v') \<in> set rw. lower (strip k') \<noteq> ''total votes''"
    and "(k, v) \<in> set rw" and "lower (strip k) = ''total_votes''"
    and "\<forall>(k', v') \<in> set rw. lower (strip k') = ''total_votes'' \<longrightarrow> v' = v"
  shows "extract_votes rw = to_int v"
  using lowered_absent [OF assms(1)] lowered_absent [OF assms(2)] lowered_present [OF assms(3-5)]
  by (simp add: extract_votes_def Let_def dict_get_def)

lemma extract_votes_none:
  assumes "\<forall>(k', v') \<in> set rw. lower (strip k') \<noteq> ''votes''"
    and "\<forall>(k', v') \<in> set rw. lower (strip k') \<noteq> ''total votes''"
    and "\<forall>(k', v') \<in> set rw. lower (strip k') \<noteq> ''total_votes''"
  shows "extract_votes rw = Inr 0"
  using lowered_absent [OF assms(1)] lowered_absent [OF assms(2)] lowered_absent [OF assms(3)]
  by (simp add: extract_votes_def Let_def dict_get_def)

lemma to_int_empty: "strip v = [] \<Longrightarrow> to_int v = Inr 0"
  by (simp add: to_int_def)

lemma to_int_hyphen:
  "strip v \<noteq> [] \<Longrightarrow> replace_char (CHR '','') [] (strip v) = ''-'' \<or> replace_char (CHR '','') [] (strip v) = ''--''
   \<Longrightarrow> to_int v = Inr 0"
  by (auto simp add: to_int_def Let_def)

text \<open>
  C6. \<^verbatim>\<open>to_int\<close> returns 0 for a field that is empty once stripped and for a field that
  is a lone \<^verbatim>\<open>-\<close> or \<^verbatim>\<open>--\<close> once its commas are removed. For a field that is a finite
  number once its commas are removed it returns the float of that number rounded to a
  nearest integer. For any other field it raises, and the error is not caught:
  \<^verbatim>\<open>extract_votes\<close> hands to \<^verbatim>\<open>to_int\<close> the field under the first of the headers
  \<^verbatim>\<open>votes\<close>, \<^verbatim>\<open>total votes\<close> and \<^verbatim>\<open>total_votes\<close> that the row has (and returns 0 for a
  row that has none of them), the row raises what \<^verbatim>\<open>extract_votes\<close> raises, and a run
  over files that hold such a row ends in an error instead of an output.
\<close>

theorem vote_parsing:
  "(strip v = [] \<longrightarrow> to_int v = Inr 0)
   \<and> to_int ''-'' = Inr 0 \<and> to_int ''--'' = Inr 0
   \<and> (strip v \<noteq> []
        \<and> (replace_char (CHR '','') [] (strip v) = ''-''
            \<or> replace_char (CHR '','') [] (strip v) = ''--'')
      \<longrightarrow> to_int v = Inr 0)
   \<and> (strip v \<noteq> [] \<and> replace_char (CHR '','') [] (strip v) \<noteq> ''-''
        \<and> replace_char (CHR '','') [] (strip v) \<noteq> ''--''
        \<and> py_float (replace_char (CHR '','') [] (strip v)) = Some (Finite x)
      \<longrightarrow> to_int v = Inr (py_round x) \<and> \<bar>of_int (py_round x) - x\<bar> \<le> 1 / 2)
   \<and> (strip v \<noteq> [] \<and> replace_char (CHR '','') [] (strip v) \<noteq> ''-''
        \<and> replace_char (CHR '','') [] (strip v) \<noteq> ''--''
        \<and> (\<forall>y. py_float (replace_char (CHR '','') [] (strip v)) \<noteq> Some (Finite y))
      \<longrightarrow> (\<exists>e. to_int v = Inl e))
   \<and> (strip v \<noteq> [] \<and> replace_char (CHR '','') [] (strip v) \<noteq> ''-''
        \<and> replace_char (CHR '','') [] (strip v) \<noteq> ''--''
        \<and> py_float (replace_char (CHR '','') [] (strip v)) = None
      \<longrightarrow> to_int v = Inl ValueError)
   \<and> ((k, v) \<in> set rw \<and> lower (strip k) = ''votes''
        \<and> (\<forall>(k', v') \<in> set rw. lower (strip k') = ''votes'' \<longrightarrow> v' = v)
      \<longrightarrow> extract_votes rw = to_int v)
   \<and> ((\<forall>(k', v') \<in> set rw. lower (strip k') \<noteq> ''votes'')
        \<and> (k, v) \<in> set rw \<and> lower (strip k) = ''total votes''
        \<and> (\<forall>(k', v') \<in> set rw. lower (strip k') = ''total votes'' \<longrightarrow> v' = v)
      \<longrightarrow> extract_votes rw = to_int v)
   \<and> ((\<forall>(k', v') \<in> set rw. lower (strip k') \<noteq> ''votes'')
        \<and> (\<forall>(k', v') \<in> set rw. lower (strip k') \<noteq> ''total votes'')
        \<and> (k, v) \<in> set rw \<and> lower (strip k) = ''total_votes''
        \<and> (\<forall>(k', v') \<in> set rw. lower (strip k') = ''total_votes'' \<longrightarrow> v' = v)
      \<longrightarrow> extract_votes rw = to_int v)
   \<and> ((\<forall>(k', v') \<in> set rw. lower (strip k') \<noteq> ''votes'')
        \<and> (\<forall>(k', v') \<in> set rw. lower (strip k') \<noteq> ''total votes'')
        \<and> (\<forall>(k', v') \<in> set rw. lower (strip k') \<noteq> ''total_votes'')
      \<longrightarrow> extract_votes rw = Inr 0)
   \<and> (extract_votes rw = Inl e \<longrightarrow> process_row lk f yr rw st = Inl e)
   \<and> (f \<in> set fs \<and> rw \<in> set (csv_rows f) \<and> extract_votes rw = Inl e
      \<longrightarrow> (\<exists>e'. main a geo fs = Inl e'))"
proof -
  let ?w = "replace_char (CHR '','') [] (strip v)"
  have 1: "strip v = [] \<longrightarrow> to_int v = Inr 0"
    by (simp add: to_int_empty)
  have 2: "to_int ''-'' = Inr 0" "to_int ''--'' = Inr 0"
    by code_simp+
  have 3: "to_int v = Inr 0" if "strip v \<noteq> []" "?w = ''-'' \<or> ?w = ''--''"
    using that by (rule to_int_hyphen)
  have 4: "to_int v = Inr (py_round x) \<and> \<bar>of_int (py_round x) - x\<bar> \<le> 1 / 2"
    if "strip v \<noteq> []" "?w \<noteq> ''-''" "?w \<noteq> ''--''" "py_float ?w = Some (Finite x)"
    using that py_round_nearest [of x] by (simp add: to_int_def Let_def)
  have 5: "\<exists>e. to_int v = Inl e"
    if "strip v \<noteq> []" "?w \<noteq> ''-''" "?w \<noteq> ''--''" "\<forall>y. py_float ?w \<noteq> Some (Finite y)"
    using that by (simp add: to_int_def Let_def split: option.splits pyfloat.splits)
  have 6: "to_int v = Inl ValueError"
    if "strip v \<noteq> []" "?w \<noteq> ''-''" "?w \<noteq> ''--''" "py_float ?w = None"
    using that by (simp add: to_int_def Let_def)
  have 7: "extract_votes rw = to_int v"
    if "(k, v) \<in> set rw" "lower (strip k) = ''votes''"
       "\<forall>(k', v') \<in> set rw. lower (strip k') = ''votes'' \<longrightarrow> v' = v"
    using that by (rule extract_votes_first)
  have 8: "extract_votes rw = to_int v"
    if "\<forall>(k', v') \<in> set rw. lower (strip k') \<noteq> ''votes''"
       "(k, v) \<in> set rw" "lower (strip k) = ''total votes''"
       "\<forall>(k', v') \<in> set rw. lower (strip k') = ''total votes'' \<longrightarrow> v' = v"
    using that by (rule extract_votes_second)
  have 9: "extract_votes rw = to_int v"
    if "\<forall>(k', v') \<in> set rw. lower (strip k') \<noteq> ''votes''"
       "\<forall>(k', v') \<in> set rw. lower (strip k') \<noteq> ''total votes''"
       "(k, v) \<in> set rw" "lower (strip k) = ''total_votes''"
       "\<forall>(k', v') \<in> set rw. lower (strip k') = ''total_votes'' \<longrightarrow> v' = v"
    using that by (rule extract_votes_third)
  have 10: "extract_votes rw = Inr 0"
    if "\<forall>(k', v') \<in> set rw. lower (strip k') \<noteq> ''votes''"
       "\<forall>(k', v') \<in> set rw. lower (strip k') \<noteq> ''total votes''"
       "\<forall>(k', v') \<in> set rw. lower (strip k') \<noteq> ''total_votes''"
    using that by (rule extract_votes_none)
  have 11: "process_row lk f yr rw st = Inl e" if "extract_votes rw = Inl e"
    using that by (rule process_row_raises)
  have 12: "\<exists>e'. main a geo fs = Inl e'"
    if "f \<in> set fs" "rw \<in> set (csv_rows f)" "extract_votes rw = Inl e"
    using that by (rule main_raises)
  show ?thesis
    apply (intro conjI impI)
    subgoal using 1 by blast
    subgoal by (rule 2(1))
    subgoal by (rule 2(2))
    subgoal by (rule 3) blast+
    subgoal by (rule 4 [THEN conjunct1]) blast+
    subgoal by (rule 4 [THEN conjunct2]) blast+
    subgoal by (rule 5) blast+
    subgoal by (rule 6) blast+
    subgoal by (rule 7) blast+
    subgoal by (rule 8) blast+
    subgoal by (rule 9) blast+
    subgoal by (rule 10) blast+
    subgoal by (rule 11) blast+
    subgoal by (rule 12) blast+
    done
qed

text \<open>The fields \<^verbatim>\<open>" "\<close>, \<^verbatim>\<open>",-,"\<close>, \<^verbatim>\<open>"1,234"\<close>, \<^verbatim>\<open>"12.6"\<close>, \<^verbatim>\<open>"inf"\<close> and
  \<^verbatim>\<open>"12a"\<close>, rows with a field that is not a number under each of the three headers
  and a row without any of them, and runs over a file with such a field under the
  first and under the second header.\<close>

theorem vote_parsing_witness:
  "to_int '' '' = Inr 0
   \<and> to_int '',-,'' = Inr 0
   \<and> to_int ''1,234'' = Inr 1234
   \<and> to_int ''12.6'' = Inr 13
   \<and> (\<exists>e. to_int ''inf'' = Inl e)
   \<and> to_int ''12a'' = Inl ValueError
   \<and> extract_votes bad_row = Inl ValueError
   \<and> extract_votes bad_total_row = to_int ''n/a''
   \<and> extract_votes bad_total_votes_row = to_int ''1.2.3''
   \<and> extract_votes no_votes_row = Inr 0
   \<and> process_row [] bad_file ''2020'' bad_row initial_state = Inl ValueError
   \<and> (\<exists>e. main default_args None [bad_file] = Inl e)
   \<and> (\<exists>e. main default_args None [bad_total_file] = Inl e)"
proof -
  note c2 = conjunct2
  have a: "strip '' '' = []" by code_simp
  have h: "strip '',-,'' \<noteq> []"
    "replace_char (CHR '','') [] (strip '',-,'') = ''-''
     \<or> replace_char (CHR '','') [] (strip '',-,'') = ''--''"
    by code_simp+
  have b: "strip ''1,234'' \<noteq> [] \<and> replace_char (CHR '','') [] (strip ''1,234'') \<noteq> ''-''
    \<and> replace_char (CHR '','') [] (strip ''1,234'') \<noteq> ''--''
    \<and> py_float (replace_char (CHR '','') [] (strip ''1,234'')) = Some (Finite 1234)"
    by code_simp
  have b5: "py_round 1234 = 1234" by code_simp
  have c: "strip ''12.6'' \<noteq> [] \<and> replace_char (CHR '','') [] (strip ''12.6'') \<noteq> ''-''
    \<and> replace_char (CHR '','') [] (strip ''12.6'') \<noteq> ''--''
    \<and> py_float (replace_char (CHR '','') [] (strip ''12.6''))
        = Some (Finite (7093169413108531 / 562949953421312))"
    by code_simp
  have c5: "py_round (7093169413108531 / 562949953421312) = 13" by code_simp
  have i: "strip ''inf'' \<noteq> [] \<and> replace_char (CHR '','') [] (strip ''inf'') \<noteq> ''-''
    \<and> replace_char (CHR '','') [] (strip ''inf'') \<noteq> ''--''
    \<and> (\<forall>y. py_float (replace_char (CHR '','') [] (strip ''inf'')) \<noteq> Some (Finite y))"
  proof -
    have "py_float (replace_char (CHR '','') [] (strip ''inf'')) = Some (Infinity False)"
      by code_simp
    moreover have "strip ''inf'' \<noteq> []" "replace_char (CHR '','') [] (strip ''inf'') \<noteq> ''-''"
      "replace_char (CHR '','') [] (strip ''inf'') \<noteq> ''--''"
      by code_simp+
    ultimately show ?thesis by simp
  qed
  have d: "strip ''12a'' \<noteq> [] \<and> replace_char (CHR '','') [] (strip ''12a'') \<noteq> ''-''
    \<and> replace_char (CHR '','') [] (strip ''12a'') \<noteq> ''--''
    \<and> py_float (replace_char (CHR '','') [] (strip ''12a'')) = None"
    by code_simp
  have e: "(''Votes'', ''12a'') \<in> set bad_row \<and> lower (strip ''Votes'') = ''votes''
    \<and> (\<forall>(k', v') \<in> set bad_row. lower (strip k') = ''votes'' \<longrightarrow> v' = ''12a'')"
    by code_simp
  have t: "(\<forall>(k', v') \<in> set bad_total_row. lower (strip k') \<noteq> ''votes'')
    \<and> ('' Total Votes'', ''n/a'') \<in> set bad_total_row \<and> lower (strip '' Total Votes'') = ''total votes''
    \<and> (\<forall>(k', v') \<in> set bad_total_row. lower (strip k') = ''total votes'' \<longrightarrow> v' = ''n/a'')"
    by code_simp
  have u: "(\<forall>(k', v') \<in> set bad_total_votes_row. lower (strip k') \<noteq> ''votes'')
    \<and> (\<forall>(k', v') \<in> set bad_total_votes_row. lower (strip k') \<noteq> ''total votes'')
    \<and> (''TOTAL_VOTES'', ''1.2.3'') \<in> set bad_total_votes_row
    \<and> lower (strip ''TOTAL_VOTES'') = ''total_votes''
    \<and> (\<forall>(k', v') \<in> set bad_total_votes_row. lower (strip k') = ''total_votes'' \<longrightarrow> v' = ''1.2.3'')"
    by code_simp
  have n: "(\<forall>(k', v') \<in> set no_votes_row. lower (strip k') \<noteq> ''votes'')
    \<and> (\<forall>(k', v') \<in> set no_votes_row. lower (strip k') \<noteq> ''total votes'')
    \<and> (\<forall>(k', v') \<in> set no_votes_row. lower (strip k') \<noteq> ''total_votes'')"
    by code_simp
  have na: "to_int ''n/a'' = Inl ValueError" by code_simp
  have f: "bad_file \<in> set [bad_file]" "bad_row \<in> set (csv_rows bad_file)"
    by (simp_all add: bad_file_def)
  have g: "bad_total_file \<in> set [bad_total_file]" "bad_total_row \<in> set (csv_rows bad_total_file)"
    by (simp_all add: bad_total_file_def)
  have 1: "to_int '' '' = Inr 0"
    by (rule vote_parsing [of "'' ''", THEN conjunct1, THEN mp]) (rule a)
  have 2: "to_int '',-,'' = Inr 0"
    by (rule vote_parsing [of "'',-,''", THEN c2, THEN c2, THEN c2, THEN conjunct1, THEN mp])
       (intro conjI h)
  have "to_int ''1,234'' = Inr (py_round 1234)"
    by (rule vote_parsing [of "''1,234''" 1234, THEN c2, THEN c2, THEN c2, THEN c2, THEN conjunct1,
          THEN mp, THEN conjunct1]) (rule b)
  then have 3: "to_int ''1,234'' = Inr 1234" by (simp only: b5)
  have "to_int ''12.6'' = Inr (py_round (7093169413108531 / 562949953421312))"
    by (rule vote_parsing [of "''12.6''" "7093169413108531 / 562949953421312", THEN c2, THEN c2,
          THEN c2, THEN c2, THEN conjunct1, THEN mp, THEN conjunct1]) (rule c)
  then have 4: "to_int ''12.6'' = Inr 13" by (simp only: c5)
  have 5: "\<exists>e. to_int ''inf'' = Inl e"
    by (rule vote_parsing [of "''inf''", THEN c2, THEN c2, THEN c2, THEN c2, THEN c2,
          THEN conjunct1, THEN mp]) (rule i)
  have 6: "to_int ''12a'' = Inl ValueError"
    by (rule vote_parsing [of "''12a''", THEN c2, THEN c2, THEN c2, THEN c2, THEN c2, THEN c2,
          THEN conjunct1, THEN mp]) (rule d)
  have "extract_votes bad_row = to_int ''12a''"
    by (rule vote_parsing [of "''12a''" _ "''Votes''" bad_row, THEN c2, THEN c2, THEN c2,
          THEN c2, THEN c2, THEN c2, THEN c2, THEN conjunct1, THEN mp]) (rule e)
  with 6 have 7: "extract_votes bad_row = Inl ValueError" by (simp only:)
  have 8: "extract_votes bad_total_row = to_int ''n/a''"
    by (rule vote_parsing [of "''n/a''" _ "'' Total Votes''" bad_total_row, THEN c2, THEN c2, THEN c2,
          THEN c2, THEN c2, THEN c2, THEN c2, THEN c2, THEN conjunct1, THEN mp]) (rule t)
  have 9: "extract_votes bad_total_votes_row = to_int ''1.2.3''"
    by (rule vote_parsing [of "''1.2.3''" _ "''TOTAL_VOTES''" bad_total_votes_row, THEN c2, THEN c2,
          THEN c2, THEN c2, THEN c2, THEN c2, THEN c2, THEN c2, THEN c2, THEN conjunct1, THEN mp])
       (rule u)
  have 10: "extract_votes no_votes_row = Inr 0"
    by (rule vote_parsing [of _ _ _ no_votes_row, THEN c2, THEN c2,
          THEN c2, THEN c2, THEN c2, THEN c2, THEN c2, THEN c2, THEN c2, THEN c2, THEN conjunct1,
          THEN mp])
       (rule n)
  have 11: "process_row [] bad_file ''2020'' bad_row initial_state = Inl ValueError"
    by (rule vote_parsing [of _ _ _ bad_row ValueError "[]" bad_file "''2020''" initial_state,
          THEN c2, THEN c2, THEN c2, THEN c2, THEN c2, THEN c2, THEN c2, THEN c2, THEN c2, THEN c2,
          THEN c2, THEN conjunct1, THEN mp])
       (rule 7)
  have 12: "\<exists>e'. main default_args None [bad_file] = Inl e'"
    by (rule vote_parsing [of _ _ _ bad_row ValueError _ bad_file _ _ "[bad_file]" default_args None,
          THEN c2, THEN c2, THEN c2, THEN c2, THEN c2, THEN c2, THEN c2, THEN c2, THEN c2, THEN c2,
          THEN c2, THEN c2, THEN mp])
       (intro conjI f 7)
  from 8 na have x8: "extract_votes bad_total_row = Inl ValueError" by (simp only:)
  have 13: "\<exists>e'. main default_args None [bad_total_file] = Inl e'"
    by (rule vote_parsing [of _ _ _ bad_total_row ValueError _ bad_total_file _ _ "[bad_total_file]"
          default_args None,
          THEN c2, THEN c2, THEN c2, THEN c2, THEN c2, THEN c2, THEN c2, THEN c2, THEN c2, THEN c2,
          THEN c2, THEN c2, THEN mp])
       (intro conjI g x8)
  show ?thesis
    by (intro conjI 1 2 3 4 5 6 7 8 9 10 11 12 13)
qed

end
